theory Spec2Isabelle
  imports Main
begin

section \<open>Go values used by the embedding\<close>

text \<open>
  Go functions return a result together with an \<open>error\<close> value; a failed index or
  type assertion panics. Both are values of the model: a Go error carries its message,
  a panic is told apart from every error, and a loop that never ends has its own outcome.
  Go's \<open>int\<close> is modelled by \<open>int\<close>: every integer of the functions below is a
  coordinate, a length or an index far below the 64-bit range.
\<close>

datatype error =
    Err string
  | InvalidCellName string
  | SyntaxError string
  | Panic string
  | Diverges

fun is_panic :: "error option \<Rightarrow> bool" where
  "is_panic (Some (Panic m)) = True"
| "is_panic _ = False"

subsection \<open>Strings\<close>

definition is_digit :: "char \<Rightarrow> bool" where
  "is_digit c = (48 \<le> (of_char c :: nat) \<and> (of_char c :: nat) \<le> 57)"

definition is_upper :: "char \<Rightarrow> bool" where
  "is_upper c = (65 \<le> (of_char c :: nat) \<and> (of_char c :: nat) \<le> 90)"

definition is_lower :: "char \<Rightarrow> bool" where
  "is_lower c = (97 \<le> (of_char c :: nat) \<and> (of_char c :: nat) \<le> 122)"

definition digit_char :: "nat \<Rightarrow> char" where
  "digit_char d = char_of (48 + d)"

definition digit_val :: "char \<Rightarrow> nat" where
  "digit_val c = of_char c - 48"

text \<open>\<open>strconv.Itoa\<close>: the decimal text of an integer.\<close>

fun nat_digits :: "nat \<Rightarrow> string" where
  "nat_digits n = (if n < 10 then [digit_char n] else nat_digits (n div 10) @ [digit_char (n mod 10)])"

declare nat_digits.simps [simp del]

definition Itoa :: "int \<Rightarrow> string" where
  "Itoa i = (if i < 0 then CHR ''-'' # nat_digits (nat (- i)) else nat_digits (nat i))"

definition digits_nat :: "string \<Rightarrow> nat" where
  "digits_nat s = foldl (\<lambda>acc c. acc * 10 + digit_val c) 0 s"

text \<open>\<open>strings.Split\<close> with a separator of one byte; the empty text gives one empty part.\<close>

fun Split :: "string \<Rightarrow> char \<Rightarrow> string list" where
  "Split [] sep = [[]]"
| "Split (c # cs) sep =
     (if c = sep then [] # Split cs sep
      else (case Split cs sep of [] \<Rightarrow> [[c]] | x # xs \<Rightarrow> (c # x) # xs))"

definition ToUpper :: "string \<Rightarrow> string" where
  "ToUpper s = map (\<lambda>c. if is_lower c then char_of ((of_char c :: nat) - 32) else c) s"



section \<open>Coordinate system\<close>

text \<open>
  Modelled from the spec: the constants \<open>TotalColumns\<close> and \<open>TotalRows\<close> and the
  functions \<open>ColumnNameToNumber\<close>, \<open>ColumnNumberToName\<close>, \<open>CellNameToCoordinates\<close>,
  \<open>CoordinatesToCellName\<close>, \<open>sortCoordinates\<close> and \<open>areaRefToCoordinates\<close> are called
  by the sources but defined elsewhere. Section 4.1 of the specification gives their
  contract: a cell reference matches \<open>[A-Z]+[1-9][0-9]*\<close> with the column at most the
  maximal column and the row at most the maximal row of the format, otherwise the
  conversion fails with \<open>InvalidCellName\<close>; \<open>coordinatesToCell\<close> is the exact inverse;
  \<open>sortCoordinates\<close> orders a 4-tuple so that \<open>x1 \<le> x2\<close> and \<open>y1 \<le> y2\<close>;
  \<open>areaRefToCoordinates\<close> fails unless the text is exactly two cell references joined
  by a colon. The limits are those of the XLSX format (column XFD, row 1048576).
\<close>

definition TotalColumns :: int where
  "TotalColumns = 16384"

definition TotalRows :: int where
  "TotalRows = 1048576"

definition ColumnNameToNumber :: "string \<Rightarrow> nat" where
  "ColumnNameToNumber name = foldl (\<lambda>acc c. acc * 26 + ((of_char c :: nat) - 64)) 0 name"

fun ColumnNumberToName :: "nat \<Rightarrow> string" where
  "ColumnNumberToName n =
     (if n = 0 then [] else ColumnNumberToName ((n - 1) div 26) @ [char_of (65 + (n - 1) mod 26)])"

declare ColumnNumberToName.simps [simp del]

definition CellNameToCoordinates :: "string \<Rightarrow> error + (int \<times> int)" where
  "CellNameToCoordinates cell =
     (let letters = takeWhile is_upper cell; digits = dropWhile is_upper cell in
      if letters = [] \<or> digits = [] \<or> \<not> list_all is_digit digits \<or> hd digits = CHR ''0''
      then Inl (InvalidCellName cell)
      else (let col = int (ColumnNameToNumber letters); row = int (digits_nat digits) in
            if col > TotalColumns \<or> row > TotalRows then Inl (InvalidCellName cell)
            else Inr (col, row)))"

definition CoordinatesToCellName :: "int \<Rightarrow> int \<Rightarrow> error + string" where
  "CoordinatesToCellName col row =
     (if col < 1 \<or> col > TotalColumns \<or> row < 1 \<or> row > TotalRows
      then Inl (Err ''invalid cell coordinates'')
      else Inr (ColumnNumberToName (nat col) @ Itoa row))"

definition sortCoordinates :: "int \<times> int \<times> int \<times> int \<Rightarrow> int \<times> int \<times> int \<times> int" where
  "sortCoordinates rng =
     (case rng of (x1, y1, x2, y2) \<Rightarrow>
        (if x2 < x1 then x2 else x1, if y2 < y1 then y2 else y1,
         if x2 < x1 then x1 else x2, if y2 < y1 then y1 else y2))"

definition areaRefToCoordinates :: "string \<Rightarrow> error + (int \<times> int \<times> int \<times> int)" where
  "areaRefToCoordinates ref =
     (case Split ref CHR '':'' of
        [a, b] \<Rightarrow>
          (case CellNameToCoordinates a of
             Inl e \<Rightarrow> Inl e
           | Inr (x1, y1) \<Rightarrow>
               (case CellNameToCoordinates b of
                  Inl e \<Rightarrow> Inl e
                | Inr (x2, y2) \<Rightarrow> Inr (x1, y1, x2, y2)))
      | _ \<Rightarrow> Inl (Err ''invalid area reference''))"


section \<open>Formula tokens and numeric library\<close>

text \<open>
  Modelled from the spec: the token type of the external tokenizer (section 6: a token
  exposes text, type and subtype per a fixed enumeration). The constructors carry the
  tokenizer's constant names; \<open>TokenTypeZero\<close> and \<open>TokenSubTypeZero\<close> are the empty
  type and subtype of Go's zero token \<open>efp.Token{}\<close>.
\<close>

datatype ttype =
    TokenTypeNoop | TokenTypeOperand | TokenTypeFunction | TokenTypeSubexpression
  | TokenTypeArgument | TokenTypeOperatorPrefix | TokenTypeOperatorInfix
  | TokenTypeOperatorPostfix | TokenTypeWhitespace | TokenTypeUnknown | TokenTypeZero

datatype tsubtype =
    TokenSubTypeNothing | TokenSubTypeStart | TokenSubTypeStop | TokenSubTypeText
  | TokenSubTypeNumber | TokenSubTypeLogical | TokenSubTypeError | TokenSubTypeRange
  | TokenSubTypeMath | TokenSubTypeConcatenation | TokenSubTypeIntersection
  | TokenSubTypeUnion | TokenSubTypeZero

record Token =
  TValue :: string
  TType :: ttype
  TSubType :: tsubtype

definition zeroToken :: Token where
  "zeroToken = \<lparr>TValue = [], TType = TokenTypeZero, TSubType = TokenSubTypeZero\<rparr>"

definition numberToken :: "string \<Rightarrow> Token" where
  "numberToken v = \<lparr>TValue = v, TType = TokenTypeOperand, TSubType = TokenSubTypeNumber\<rparr>"

definition formulaErrorDIV :: string where "formulaErrorDIV = ''#DIV/0!''"
definition formulaErrorNAME :: string where "formulaErrorNAME = ''#NAME?''"
definition formulaErrorNUM :: string where "formulaErrorNUM = ''#NUM!''"
definition formulaErrorVALUE :: string where "formulaErrorVALUE = ''#VALUE!''"

text \<open>
  The functions of Go's \<open>strconv\<close>, \<open>fmt\<close> and \<open>math\<close> packages on \<open>float64\<close> are
  not part of the program: the embedding takes them as a parameter, a record of
  operations over a type \<open>'f\<close> of floating-point values. \<open>ParseFloat\<close> is
  \<open>strconv.ParseFloat(s, 64)\<close>, \<open>fmt_g\<close> is \<open>fmt.Sprintf("%g", x)\<close>, \<open>fzero\<close> is the
  constant \<open>0\<close>, \<open>feq\<close> and \<open>flt\<close> are \<open>==\<close> and \<open><\<close>, the others are the arithmetic
  operators and \<open>math.Trunc\<close>, \<open>math.Sqrt\<close>, \<open>math.Pow\<close>. Every theorem stated for an
  arbitrary \<open>lib\<close> holds whatever these functions compute.
\<close>

record 'f float_ops =
  ParseFloat :: "string \<Rightarrow> error + 'f"
  fmt_g :: "'f \<Rightarrow> string"
  fzero :: 'f
  fone :: 'f
  feq :: "'f \<Rightarrow> 'f \<Rightarrow> bool"
  flt :: "'f \<Rightarrow> 'f \<Rightarrow> bool"
  fadd :: "'f \<Rightarrow> 'f \<Rightarrow> 'f"
  fsub :: "'f \<Rightarrow> 'f \<Rightarrow> 'f"
  fmul :: "'f \<Rightarrow> 'f \<Rightarrow> 'f"
  fdiv :: "'f \<Rightarrow> 'f \<Rightarrow> 'f"
  Trunc :: "'f \<Rightarrow> 'f"
  Sqrt :: "'f \<Rightarrow> 'f"
  Pow :: "'f \<Rightarrow> 'f \<Rightarrow> 'f"

text \<open>
  \<open>fmt.Sprintf("%g", x)\<close> for an integer-valued \<open>x\<close> below \<open>2^53\<close> in magnitude: the
  shortest digits are the integer's own without trailing zeros; the exponent form is
  used from \<open>10^6\<close> on.
\<close>

definition fmt_g_nat :: "nat \<Rightarrow> string" where
  "fmt_g_nat n =
     (let ds = nat_digits n in
      if length ds \<le> 6 then ds
      else (let m = rev (dropWhile (\<lambda>c. c = CHR ''0'') (rev ds)); e = length ds - 1 in
            hd m # (if tl m = [] then [] else CHR ''.'' # tl m) @ ''e+''
              @ (if e < 10 then CHR ''0'' # nat_digits e else nat_digits e)))"

definition fmt_g_int :: "int \<Rightarrow> string" where
  "fmt_g_int i = (if i < 0 then CHR ''-'' # fmt_g_nat (nat (- i)) else fmt_g_nat (nat i))"

text \<open>
  A reference instance of the library on integer operands, used to run the evaluator on
  concrete formulas: a value is an integer, a text parses when it is an optionally signed
  run of decimal digits, and the arithmetic is exact. It stands for Go's library only on
  such texts and on exact results (a quotient is exact when the divisor divides the
  dividend, a root when the operand is a square); the sign of zero is not kept.
\<close>

definition ParseFloat_int :: "string \<Rightarrow> error + int" where
  "ParseFloat_int s =
     (let neg = (s \<noteq> [] \<and> hd s = CHR ''-'');
          ds = (if s \<noteq> [] \<and> (hd s = CHR ''-'' \<or> hd s = CHR ''+'') then tl s else s) in
      if ds \<noteq> [] \<and> list_all is_digit ds
      then Inr ((if neg then - 1 else 1) * int (digits_nat ds))
      else Inl (SyntaxError s))"

definition int_ops :: "int float_ops" where
  "int_ops = \<lparr>ParseFloat = ParseFloat_int, fmt_g = fmt_g_int, fzero = 0, fone = 1,
     feq = (\<lambda>a b. a = b), flt = (\<lambda>a b. a < b),
     fadd = (\<lambda>a b. a + b), fsub = (\<lambda>a b. a - b), fmul = (\<lambda>a b. a * b),
     fdiv = (\<lambda>a b. a div b), Trunc = (\<lambda>a. a),
     Sqrt = (\<lambda>a. int (length (filter (\<lambda>k. k * k \<le> nat a) [1..<Suc (nat a)]))),
     Pow = (\<lambda>a b. a ^ nat b)\<rparr>"

section \<open>Operator-precedence evaluation\<close>

text \<open>
  Modelled from the spec: the \<open>Stack\<close> type of the sources is defined elsewhere. A stack
  is a list with the top first; \<open>Push\<close> conses, \<open>Pop\<close> and \<open>Peek\<close> of an empty stack
  give \<open>nil\<close>, whose type assertion \<open>.(efp.Token)\<close> panics.
\<close>

definition nilAssertion :: error where
  "nilAssertion = Panic ''interface conversion: interface {} is nil, not efp.Token''"

definition getPriority :: "Token \<Rightarrow> int" where
  "getPriority token =
     (let pri = (if TValue token = ''*'' \<or> TValue token = ''/'' then 2
                 else if TValue token = ''+'' \<or> TValue token = ''-'' then 1 else 0);
          pri = (if TValue token = ''-'' \<and> TType token = TokenTypeOperatorPrefix then 3 else pri);
          pri = (if TSubType token = TokenSubTypeStart \<and> TType token = TokenTypeSubexpression
                 then 0 else pri)
      in pri)"

text \<open>
  A step on a stack returns the stack as it leaves it and the error, if any; \<open>andThen\<close>
  runs the next statement unless an error was returned.
\<close>

definition andThen :: "'s \<times> error option \<Rightarrow> ('s \<Rightarrow> 's \<times> error option) \<Rightarrow> 's \<times> error option" where
  "andThen r f = (case r of (s, None) \<Rightarrow> f s | (s, Some e) \<Rightarrow> (s, Some e))"

text \<open>The prefix minus: one operand is popped and parsed, \<open>0 - x\<close> is pushed.\<close>

definition negate :: "'f float_ops \<Rightarrow> Token list \<Rightarrow> Token list \<times> error option" where
  "negate lib opdStack =
     (case opdStack of
        [] \<Rightarrow> ([], Some nilAssertion)
      | opd # rest \<Rightarrow>
          (case ParseFloat lib (TValue opd) of
             Inl e \<Rightarrow> (rest, Some e)
           | Inr opdVal \<Rightarrow>
               (numberToken (fmt_g lib (fsub lib (fzero lib) opdVal)) # rest, None)))"

text \<open>
  A binary operator: the right operand is popped, then the left one; the left text is
  parsed first. \<open>finish\<close> is what the operator does with the two numbers.
\<close>

definition binary ::
  "'f float_ops \<Rightarrow> ('f \<Rightarrow> 'f \<Rightarrow> Token list \<Rightarrow> Token list \<times> error option)
     \<Rightarrow> Token list \<Rightarrow> Token list \<times> error option" where
  "binary lib finish opdStack =
     (case opdStack of
        [] \<Rightarrow> ([], Some nilAssertion)
      | [rOpd] \<Rightarrow> ([], Some nilAssertion)
      | rOpd # lOpd # rest \<Rightarrow>
          (case ParseFloat lib (TValue lOpd) of
             Inl e \<Rightarrow> (rest, Some e)
           | Inr lOpdVal \<Rightarrow>
               (case ParseFloat lib (TValue rOpd) of
                  Inl e \<Rightarrow> (rest, Some e)
                | Inr rOpdVal \<Rightarrow> finish lOpdVal rOpdVal rest)))"

definition pushResult :: "'f float_ops \<Rightarrow> 'f \<Rightarrow> Token list \<Rightarrow> Token list \<times> error option" where
  "pushResult lib result rest = (numberToken (fmt_g lib result) # rest, None)"

definition calculate :: "'f float_ops \<Rightarrow> Token list \<Rightarrow> Token \<Rightarrow> Token list \<times> error option" where
  "calculate lib opdStack opt =
     andThen (if TValue opt = ''-'' \<and> TType opt = TokenTypeOperatorPrefix
              then negate lib opdStack else (opdStack, None)) (\<lambda>s.
     andThen (if TValue opt = ''+''
              then binary lib (\<lambda>l r. pushResult lib (fadd lib l r)) s else (s, None)) (\<lambda>s.
     andThen (if TValue opt = ''-'' \<and> TType opt = TokenTypeOperatorInfix
              then binary lib (\<lambda>l r. pushResult lib (fsub lib l r)) s else (s, None)) (\<lambda>s.
     andThen (if TValue opt = ''*''
              then binary lib (\<lambda>l r. pushResult lib (fmul lib l r)) s else (s, None)) (\<lambda>s.
     (if TValue opt = ''/''
      then binary lib (\<lambda>l r rest.
             if feq lib r (fzero lib) then (rest, Some (Err formulaErrorDIV))
             else pushResult lib (fdiv lib l r) rest) s
      else (s, None))))))"


section \<open>Reference and range resolver\<close>

record cellRef =
  Col :: int
  Row :: int
  Sheet :: string

record cellRange =
  From :: cellRef
  To :: cellRef

text \<open>
  \<open>f.GetCellValue\<close> of the file under evaluation is a parameter \<open>gcv\<close> of the resolver:
  it takes the sheet name and the cell name and gives the value and the error.

  The \<open>filter\<close> map of \<open>rangeResolver\<close> is an association list \<open>fmap\<close>, a key keeping the place
  of its first assignment. Go iterates a map in no fixed order, so the order of the
  values of a result with several cells is one of the orders the program may produce.
\<close>

fun assign :: "(string \<times> string) list \<Rightarrow> string \<Rightarrow> string \<Rightarrow> (string \<times> string) list" where
  "assign [] k v = [(k, v)]"
| "assign ((k', v') # m) k v = (if k' = k then (k, v) # m else (k', v') # assign m k v)"

text \<open>
  The body of the two loops of \<open>rangeResolver\<close> over cells: each cell assigns the
  variable \<open>err\<close> twice and returns when it is not nil. \<open>Inl\<close> is that early return;
  \<open>Inr\<close> carries the map and the value \<open>err\<close> has when the cells are done.
\<close>

fun resolveCells ::
  "(string \<Rightarrow> string \<Rightarrow> string \<times> error option) \<Rightarrow> string \<Rightarrow> (int \<times> int) list
     \<Rightarrow> (string \<times> string) list \<times> error option
     \<Rightarrow> error + ((string \<times> string) list \<times> error option)" where
  "resolveCells gcv sheet [] st = Inr st"
| "resolveCells gcv sheet ((col, row) # cells) (fmap, err) =
     (case CoordinatesToCellName col row of
        Inl e \<Rightarrow> Inl e
      | Inr cell \<Rightarrow>
          (case gcv sheet cell of
             (v, Some e) \<Rightarrow> Inl e
           | (v, None) \<Rightarrow> resolveCells gcv sheet cells (assign fmap cell v, None)))"

definition rangeCells :: "cellRange \<Rightarrow> (int \<times> int) list" where
  "rangeCells cr =
     (case sortCoordinates (Col (From cr), Row (From cr), Col (To cr), Row (To cr)) of
        (x1, y1, x2, y2) \<Rightarrow> concat (map (\<lambda>col. map (\<lambda>row. (col, row)) [y1..y2]) [x1..x2]))"

fun resolveRanges ::
  "(string \<Rightarrow> string \<Rightarrow> string \<times> error option) \<Rightarrow> cellRange list
     \<Rightarrow> (string \<times> string) list \<times> error option
     \<Rightarrow> error + ((string \<times> string) list \<times> error option)" where
  "resolveRanges gcv [] st = Inr st"
| "resolveRanges gcv (cr # rest) (fmap, err) =
     (let err = (if Sheet (From cr) \<noteq> Sheet (To cr) then Some (Err formulaErrorVALUE) else err) in
      case resolveCells gcv (Sheet (From cr)) (rangeCells cr) (fmap, err) of
        Inl e \<Rightarrow> Inl e
      | Inr st \<Rightarrow> resolveRanges gcv rest st)"

fun resolveRefs ::
  "(string \<Rightarrow> string \<Rightarrow> string \<times> error option) \<Rightarrow> cellRef list
     \<Rightarrow> (string \<times> string) list \<times> error option
     \<Rightarrow> error + ((string \<times> string) list \<times> error option)" where
  "resolveRefs gcv [] st = Inr st"
| "resolveRefs gcv (cr # rest) st =
     (case resolveCells gcv (Sheet cr) [(Col cr, Row cr)] st of
        Inl e \<Rightarrow> Inl e
      | Inr st' \<Rightarrow> resolveRefs gcv rest st')"

definition rangeResolver ::
  "(string \<Rightarrow> string \<Rightarrow> string \<times> error option) \<Rightarrow> cellRef list \<Rightarrow> cellRange list
     \<Rightarrow> string list \<times> error option" where
  "rangeResolver gcv cellRefs cellRanges =
     (case resolveRanges gcv cellRanges ([], None) of
        Inl e \<Rightarrow> ([], Some e)
      | Inr st \<Rightarrow>
          (case resolveRefs gcv cellRefs st of
             Inl e \<Rightarrow> ([], Some e)
           | Inr (fmap, err) \<Rightarrow> (map snd fmap, err)))"

text \<open>
  The loop of \<open>parseReference\<close> over the parts between colons. The three lists are
  \<open>refs\<close>, \<open>cellRanges\<close> and \<open>cellRefs\<close>, the last element being \<open>Back()\<close>. The \<open>To\<close>
  end of a range is the reference just parsed, whose \<open>Sheet\<close> field was never set.
\<close>

fun parseRefs ::
  "string \<Rightarrow> string list \<Rightarrow> cellRef list \<times> cellRange list \<times> cellRef list
     \<Rightarrow> error + (cellRef list \<times> cellRange list \<times> cellRef list)" where
  "parseRefs sheet [] st = Inr st"
| "parseRefs sheet (ref # rest) (refs, cellRanges, cellRefs) =
     (let tokens = Split ref CHR ''!'' in
      if length tokens = 2 then
        (case CellNameToCoordinates (tokens ! 1) of
           Inl e \<Rightarrow> Inl e
         | Inr (col, row) \<Rightarrow>
             (let cr = \<lparr>Col = col, Row = row, Sheet = tokens ! 0\<rparr> in
              if refs \<noteq> []
              then parseRefs sheet rest (butlast refs @ [cr], cellRanges, cellRefs @ [last refs])
              else parseRefs sheet rest (refs @ [cr], cellRanges, cellRefs)))
      else
        (case CellNameToCoordinates (hd tokens) of
           Inl e \<Rightarrow> Inl e
         | Inr (col, row) \<Rightarrow>
             (if refs = []
              then parseRefs sheet rest ([\<lparr>Col = col, Row = row, Sheet = sheet\<rparr>], cellRanges, cellRefs)
              else parseRefs sheet rest
                     (butlast refs,
                      cellRanges @ [\<lparr>From = last refs, To = \<lparr>Col = col, Row = row, Sheet = []\<rparr>\<rparr>],
                      cellRefs))))"

definition parseReference ::
  "(string \<Rightarrow> string \<Rightarrow> string \<times> error option) \<Rightarrow> string \<Rightarrow> string
     \<Rightarrow> string list \<times> error option" where
  "parseReference gcv sheet reference =
     (let reference = filter (\<lambda>c. c \<noteq> CHR ''$'') reference in
      case parseRefs sheet (Split reference CHR '':'') ([], [], []) of
        Inl e \<Rightarrow> ([], Some e)
      | Inr (refs, cellRanges, cellRefs) \<Rightarrow>
          rangeResolver gcv (if refs \<noteq> [] then cellRefs @ [last refs] else cellRefs) cellRanges)"

section \<open>Token parsing\<close>

text \<open>
  The loop of \<open>parseToken\<close> that applies the operators on the stack whose priority is
  at least the one of the incoming operator, and the loop that closes a parenthesis.
  The state is the operand stack and the operator stack.
\<close>

fun reduceOperators ::
  "'f float_ops \<Rightarrow> int \<Rightarrow> Token list \<Rightarrow> Token list \<Rightarrow> (Token list \<times> Token list) \<times> error option" where
  "reduceOperators lib tokenPriority opdStack [] = ((opdStack, []), None)"
| "reduceOperators lib tokenPriority opdStack (topOpt # optStack) =
     (if tokenPriority \<le> getPriority topOpt then
        (case calculate lib opdStack topOpt of
           (opdStack', Some e) \<Rightarrow> ((opdStack', optStack), Some e)
         | (opdStack', None) \<Rightarrow> reduceOperators lib tokenPriority opdStack' optStack)
      else ((opdStack, topOpt # optStack), None))"

fun closeSubexpression ::
  "'f float_ops \<Rightarrow> Token list \<Rightarrow> Token list \<Rightarrow> (Token list \<times> Token list) \<times> error option" where
  "closeSubexpression lib opdStack [] = ((opdStack, []), Some nilAssertion)"
| "closeSubexpression lib opdStack (topOpt # optStack) =
     (if TSubType topOpt \<noteq> TokenSubTypeStart \<and> TType topOpt \<noteq> TokenTypeSubexpression then
        (case calculate lib opdStack topOpt of
           (opdStack', Some e) \<Rightarrow> ((opdStack', topOpt # optStack), Some e)
         | (opdStack', None) \<Rightarrow> closeSubexpression lib opdStack' optStack)
      else ((opdStack, optStack), None))"

definition isOperator :: "Token \<Rightarrow> bool" where
  "isOperator token =
     ((TValue token = ''-'' \<and> TType token = TokenTypeOperatorPrefix) \<or> TValue token = ''+''
       \<or> TValue token = ''-'' \<or> TValue token = ''*'' \<or> TValue token = ''/'')"

definition resolveToken ::
  "(string \<Rightarrow> string \<Rightarrow> string \<times> error option) \<Rightarrow> string \<Rightarrow> Token \<Rightarrow> error + Token" where
  "resolveToken gcv sheet token =
     (if TSubType token = TokenSubTypeRange then
        (case parseReference gcv sheet (TValue token) of
           (result, Some e) \<Rightarrow> Inl (Err formulaErrorNAME)
         | (result, None) \<Rightarrow>
             if length result \<noteq> 1 then Inl (Err formulaErrorVALUE)
             else Inr (numberToken (hd result)))
      else Inr token)"

definition parseToken ::
  "'f float_ops \<Rightarrow> (string \<Rightarrow> string \<Rightarrow> string \<times> error option) \<Rightarrow> string \<Rightarrow> Token
     \<Rightarrow> Token list \<Rightarrow> Token list \<Rightarrow> (Token list \<times> Token list) \<times> error option" where
  "parseToken lib gcv sheet token0 opdStack optStack =
     (case resolveToken gcv sheet token0 of
        Inl e \<Rightarrow> ((opdStack, optStack), Some e)
      | Inr token \<Rightarrow>
          andThen
            (if isOperator token then
               (case optStack of
                  [] \<Rightarrow> ((opdStack, [token]), None)
                | topOpt # _ \<Rightarrow>
                    if getPriority token > getPriority topOpt
                    then ((opdStack, token # optStack), None)
                    else andThen (reduceOperators lib (getPriority token) opdStack optStack)
                           (\<lambda>(opd, opt). ((opd, token # opt), None)))
             else ((opdStack, optStack), None))
          (\<lambda>(opd, opt).
          andThen
            (if TType token = TokenTypeSubexpression \<and> TSubType token = TokenSubTypeStart
             then ((opd, token # opt), None) else ((opd, opt), None))
          (\<lambda>(opd, opt).
          andThen
            (if TType token = TokenTypeSubexpression \<and> TSubType token = TokenSubTypeStop
             then closeSubexpression lib opd opt else ((opd, opt), None))
          (\<lambda>(opd, opt).
            (if TType token = TokenTypeOperand \<and> TSubType token = TokenSubTypeNumber
             then ((token # opd, opt), None) else ((opd, opt), None))))))"


section \<open>Function library\<close>

text \<open>
  A library function takes the argument list and returns the named results
  \<open>(result, err)\<close>; \<open>result\<close> is empty unless the function assigned it.

  \<open>ARABIC\<close> computes with \<open>float64\<close> values that are sums of the digit values 1 to
  1000, so they are integers far below \<open>2^53\<close> for any text that fits in memory, where
  \<open>float64\<close> arithmetic is exact: the model computes with integers. The product
  \<open>prefix*val\<close> is the negative zero when \<open>prefix\<close> is \<open>-1\<close> and \<open>val\<close> is 0, which
  \<open>%g\<close> prints as \<open>-0\<close>.

  The text is a list of bytes and the loop of \<open>ARABIC\<close> ranges over its runes.
  \<open>decodeRune\<close> reads the first rune of a byte sequence as the \<open>range\<close> clause of Go
  does: it gives the code point and the number of bytes read, and for a byte that
  starts no well-formed UTF-8 sequence the code point \<open>RuneError\<close> and one byte.
  \<open>runes\<close> is the sequence of runes of a text.
\<close>

definition RuneError :: nat where
  "RuneError = 65533"

definition between :: "nat \<Rightarrow> nat \<Rightarrow> nat \<Rightarrow> bool" where
  "between lo hi b = (lo \<le> b \<and> b \<le> hi)"

fun decodeRune :: "nat list \<Rightarrow> nat \<times> nat" where
  "decodeRune [] = (RuneError, 0)"
| "decodeRune (b0 # rest) =
     (if b0 < 128 then (b0, 1)
      else if between 194 223 b0 then
        (case rest of
           b1 # _ \<Rightarrow>
             if between 128 191 b1 then ((b0 mod 32) * 64 + b1 mod 64, 2) else (RuneError, 1)
         | _ \<Rightarrow> (RuneError, 1))
      else if between 224 239 b0 then
        (case rest of
           b1 # b2 # _ \<Rightarrow>
             if between (if b0 = 224 then 160 else 128) (if b0 = 237 then 159 else 191) b1
                \<and> between 128 191 b2
             then ((b0 mod 16) * 4096 + (b1 mod 64) * 64 + b2 mod 64, 3) else (RuneError, 1)
         | _ \<Rightarrow> (RuneError, 1))
      else if between 240 244 b0 then
        (case rest of
           b1 # b2 # b3 # _ \<Rightarrow>
             if between (if b0 = 240 then 144 else 128) (if b0 = 244 then 143 else 191) b1
                \<and> between 128 191 b2 \<and> between 128 191 b3
             then ((b0 mod 8) * 262144 + (b1 mod 64) * 4096 + (b2 mod 64) * 64 + b3 mod 64, 4)
             else (RuneError, 1)
         | _ \<Rightarrow> (RuneError, 1))
      else (RuneError, 1))"

fun runesFrom :: "nat \<Rightarrow> nat list \<Rightarrow> nat list" where
  "runesFrom skip [] = []"
| "runesFrom skip (b # bs) =
     (if skip > 0 then runesFrom (skip - 1) bs
      else (case decodeRune (b # bs) of (r, width) \<Rightarrow> r # runesFrom (width - 1) bs))"

definition runes :: "string \<Rightarrow> nat list" where
  "runes text = runesFrom 0 (map of_char text)"

definition rune :: "char \<Rightarrow> nat" where
  "rune c = of_char c"

definition arabicDigit :: "nat \<Rightarrow> int" where
  "arabicDigit char =
     (if char = rune CHR ''I'' then 1 else if char = rune CHR ''V'' then 5
      else if char = rune CHR ''X'' then 10 else if char = rune CHR ''L'' then 50
      else if char = rune CHR ''C'' then 100 else if char = rune CHR ''D'' then 500
      else if char = rune CHR ''M'' then 1000 else 0)"

fun arabicLoop :: "nat list \<Rightarrow> int \<times> int \<times> int \<Rightarrow> string + (int \<times> int \<times> int)" where
  "arabicLoop [] st = Inr st"
| "arabicLoop (c # cs) (val, lastd, prefix) =
     (if c = rune CHR ''-'' then arabicLoop cs (val, lastd, - 1)
      else (let digit = arabicDigit c; val = val + digit in
            if lastd = digit \<and> (lastd = 5 \<or> lastd = 50 \<or> lastd = 500) then Inl formulaErrorVALUE
            else if 2 * lastd = digit then Inl formulaErrorVALUE
            else arabicLoop cs (if lastd < digit then val - 2 * lastd else val, digit, prefix)))"

definition ARABIC :: "Token list \<Rightarrow> string \<times> error option" where
  "ARABIC argsList =
     (if length argsList \<noteq> 1 then ([], Some (Err ''ARABIC requires 1 numeric arguments''))
      else (case arabicLoop (runes (TValue (hd argsList))) (0, 0, 1) of
              Inl result \<Rightarrow> (result, None)
            | Inr (val, lastd, prefix) \<Rightarrow>
                (if prefix < 0 \<and> val = 0 then ''-0'' else fmt_g_int (prefix * val), None)))"

text \<open>
  \<open>gcd\<close> subtracts the smaller number from the larger until they are equal. On
  floating-point numbers the loop need not end, so it is a partial function; a run
  without end is the outcome \<open>Diverges\<close> of the caller.
\<close>

partial_function (option) gcdLoop :: "'f float_ops \<Rightarrow> 'f \<Rightarrow> 'f \<Rightarrow> 'f option" where
  "gcdLoop lib x y =
     (if \<not> feq lib x y
      then (if flt lib y x then gcdLoop lib (fsub lib x y) y else gcdLoop lib x (fsub lib y x))
      else Some x)"

declare gcdLoop.simps [code]

definition gcd_go :: "'f float_ops \<Rightarrow> 'f \<Rightarrow> 'f \<Rightarrow> 'f option" where
  "gcd_go lib x0 y0 =
     (let x = Trunc lib x0; y = Trunc lib y0 in
      if feq lib x (fzero lib) then Some y
      else if feq lib y (fzero lib) then Some x
      else gcdLoop lib x y)"

definition lcm_go :: "'f float_ops \<Rightarrow> 'f \<Rightarrow> 'f \<Rightarrow> 'f option" where
  "lcm_go lib a0 b0 =
     (let a = Trunc lib a0; b = Trunc lib b0 in
      if feq lib a (fzero lib) \<and> feq lib b (fzero lib) then Some (fzero lib)
      else map_option (\<lambda>g. fdiv lib (fmul lib a b) g) (gcd_go lib a b))"

text \<open>
  The loop that parses the arguments, skipping the tokens with an empty text. The
  methods \<open>GCD\<close>, \<open>LCM\<close> and \<open>SUM\<close> are named \<open>GCD_fn\<close>, \<open>LCM_fn\<close> and
  \<open>SUM_fn\<close>, their own names being taken by the library.
\<close>

fun parseNumbers :: "'f float_ops \<Rightarrow> Token list \<Rightarrow> 'f list \<Rightarrow> error + 'f list" where
  "parseNumbers lib [] nums = Inr nums"
| "parseNumbers lib (token # rest) nums =
     (if TValue token = [] then parseNumbers lib rest nums
      else (case ParseFloat lib (TValue token) of
              Inl e \<Rightarrow> Inl e
            | Inr val \<Rightarrow> parseNumbers lib rest (nums @ [val])))"

fun combineNumbers ::
  "'f float_ops \<Rightarrow> ('f \<Rightarrow> 'f \<Rightarrow> 'f option) \<Rightarrow> string \<Rightarrow> 'f \<Rightarrow> 'f list \<Rightarrow> string \<times> error option" where
  "combineNumbers lib step msg acc [] = (fmt_g lib acc, None)"
| "combineNumbers lib step msg acc (n # nums) =
     (if flt lib n (fzero lib) then ([], Some (Err msg))
      else (case step acc n of
              None \<Rightarrow> ([], Some Diverges)
            | Some acc' \<Rightarrow> combineNumbers lib step msg acc' nums))"

definition indexOutOfRange :: error where
  "indexOutOfRange = Panic ''runtime error: index out of range [0] with length 0''"

definition GCD_fn :: "'f float_ops \<Rightarrow> Token list \<Rightarrow> string \<times> error option" where
  "GCD_fn lib argsList =
     (if length argsList = 0 then ([], Some (Err ''GCD requires at least 1 argument''))
      else (case parseNumbers lib argsList [] of
              Inl e \<Rightarrow> ([], Some e)
            | Inr [] \<Rightarrow> ([], Some indexOutOfRange)
            | Inr (n0 # nums) \<Rightarrow>
                if flt lib n0 (fzero lib) then ([], Some (Err ''GCD only accepts positive arguments''))
                else if length (n0 # nums) = 1 then (fmt_g lib n0, None)
                else combineNumbers lib (gcd_go lib) ''GCD only accepts positive arguments'' n0 nums))"

definition LCM_fn :: "'f float_ops \<Rightarrow> Token list \<Rightarrow> string \<times> error option" where
  "LCM_fn lib argsList =
     (if length argsList = 0 then ([], Some (Err ''LCM requires at least 1 argument''))
      else (case parseNumbers lib argsList [] of
              Inl e \<Rightarrow> ([], Some e)
            | Inr [] \<Rightarrow> ([], Some indexOutOfRange)
            | Inr (n0 # nums) \<Rightarrow>
                if flt lib n0 (fzero lib) then ([], Some (Err ''LCM only accepts positive arguments''))
                else if length (n0 # nums) = 1 then (fmt_g lib n0, None)
                else combineNumbers lib (lcm_go lib) ''LCM only accepts positive arguments'' n0 nums))"

definition POWER :: "'f float_ops \<Rightarrow> Token list \<Rightarrow> string \<times> error option" where
  "POWER lib argsList =
     (if length argsList \<noteq> 2 then ([], Some (Err ''POWER requires 2 numeric arguments''))
      else (case ParseFloat lib (TValue (hd argsList)) of
              Inl e \<Rightarrow> ([], Some e)
            | Inr x \<Rightarrow>
                (case ParseFloat lib (TValue (last argsList)) of
                   Inl e \<Rightarrow> ([], Some e)
                 | Inr y \<Rightarrow>
                     if feq lib x (fzero lib) \<and> feq lib y (fzero lib)
                     then ([], Some (Err formulaErrorNUM))
                     else if feq lib x (fzero lib) \<and> flt lib y (fzero lib)
                     then ([], Some (Err formulaErrorDIV))
                     else (fmt_g lib (Pow lib x y), None))))"

definition SQRT :: "'f float_ops \<Rightarrow> Token list \<Rightarrow> string \<times> error option" where
  "SQRT lib argsList =
     (if length argsList \<noteq> 1 then ([], Some (Err ''SQRT requires 1 numeric arguments''))
      else (case ParseFloat lib (TValue (hd argsList)) of
              Inl e \<Rightarrow> ([], Some e)
            | Inr val \<Rightarrow>
                if flt lib val (fzero lib) then ([], Some (Err formulaErrorNUM))
                else (fmt_g lib (Sqrt lib val), None)))"

fun accumulate ::
  "'f float_ops \<Rightarrow> ('f \<Rightarrow> 'f \<Rightarrow> 'f) \<Rightarrow> Token list \<Rightarrow> 'f \<Rightarrow> string \<times> error option" where
  "accumulate lib op [] acc = (fmt_g lib acc, None)"
| "accumulate lib op (token # rest) acc =
     (if TValue token = [] then accumulate lib op rest acc
      else (case ParseFloat lib (TValue token) of
              Inl e \<Rightarrow> ([], Some e)
            | Inr val \<Rightarrow> accumulate lib op rest (op acc val)))"

definition SUM_fn :: "'f float_ops \<Rightarrow> Token list \<Rightarrow> string \<times> error option" where
  "SUM_fn lib argsList = accumulate lib (fadd lib) argsList (fzero lib)"

definition PRODUCT :: "'f float_ops \<Rightarrow> Token list \<Rightarrow> string \<times> error option" where
  "PRODUCT lib argsList = accumulate lib (fmul lib) argsList (fone lib)"

definition SIGN :: "'f float_ops \<Rightarrow> Token list \<Rightarrow> string \<times> error option" where
  "SIGN lib argsList =
     (if length argsList \<noteq> 1 then ([], Some (Err ''SIGN requires 1 numeric arguments''))
      else (case ParseFloat lib (TValue (hd argsList)) of
              Inl e \<Rightarrow> ([], Some e)
            | Inr val \<Rightarrow>
                if flt lib val (fzero lib) then (''-1'', None)
                else if flt lib (fzero lib) val then (''1'', None)
                else (''0'', None)))"

definition QUOTIENT :: "'f float_ops \<Rightarrow> Token list \<Rightarrow> string \<times> error option" where
  "QUOTIENT lib argsList =
     (if length argsList \<noteq> 2 then ([], Some (Err ''QUOTIENT requires 2 numeric arguments''))
      else (case ParseFloat lib (TValue (hd argsList)) of
              Inl e \<Rightarrow> ([], Some e)
            | Inr x \<Rightarrow>
                (case ParseFloat lib (TValue (last argsList)) of
                   Inl e \<Rightarrow> ([], Some e)
                 | Inr y \<Rightarrow>
                     if feq lib y (fzero lib) then ([], Some (Err formulaErrorDIV))
                     else (fmt_g lib (Trunc lib (fdiv lib x y)), None))))"

text \<open>
  \<open>callFuncByName\<close> finds the method of \<open>formulaFuncs\<close> with the given name by
  reflection. The methods embedded above are looked up by name; the other methods of
  the type (the trigonometric functions, \<open>ABS\<close>, \<open>BASE\<close>, \<open>CEILING\<close>, \<open>CEILINGMATH\<close>)
  are the table \<open>others\<close>. The result of a call that returned an error is empty.
\<close>

definition callFuncByName ::
  "'f float_ops \<Rightarrow> (string \<Rightarrow> (Token list \<Rightarrow> string \<times> error option) option) \<Rightarrow> string
     \<Rightarrow> Token list \<Rightarrow> string \<times> error option" where
  "callFuncByName lib others name params =
     (let function =
        (if name = ''ARABIC'' then Some ARABIC
         else if name = ''GCD'' then Some (GCD_fn lib)
         else if name = ''LCM'' then Some (LCM_fn lib)
         else if name = ''POWER'' then Some (POWER lib)
         else if name = ''PRODUCT'' then Some (PRODUCT lib)
         else if name = ''SIGN'' then Some (SIGN lib)
         else if name = ''SQRT'' then Some (SQRT lib)
         else if name = ''SUM'' then Some (SUM_fn lib)
         else if name = ''QUOTIENT'' then Some (QUOTIENT lib)
         else others name) in
      case function of
        None \<Rightarrow> ([], Some (Err (''not support '' @ name @ '' function'')))
      | Some fn \<Rightarrow>
          (case fn params of
             (result, Some e) \<Rightarrow> ([], Some e)
           | (result, None) \<Rightarrow> (result, None)))"

text \<open>\<open>strings.NewReplacer("_xlfn", "", ".", "").Replace\<close>.\<close>

fun stripFunctionName :: "string \<Rightarrow> string" where
  "stripFunctionName [] = []"
| "stripFunctionName (c # cs) =
     (if take 5 (c # cs) = ''_xlfn'' then stripFunctionName (drop 4 cs)
      else if c = CHR ''.'' then stripFunctionName cs
      else c # stripFunctionName cs)"


section \<open>Infix expression evaluator\<close>

text \<open>
  The five stacks and the argument list of \<open>evalInfixExp\<close>. One token is one step of
  the loop; \<open>Inl\<close> is a \<open>return\<close> inside the loop with the token and the error it
  returns, \<open>Inr\<close> the state at the next iteration.
\<close>

record evalState =
  opdStack :: "Token list"
  optStack :: "Token list"
  opfStack :: "Token list"
  opfdStack :: "Token list"
  opftStack :: "Token list"
  argsList :: "Token list"

text \<open>The loop \<open>for !opftStack.Empty()\<close> applying every pending operator.\<close>

fun drainOperators :: "'f float_ops \<Rightarrow> Token list \<Rightarrow> Token list \<Rightarrow> Token list \<times> error option" where
  "drainOperators lib opd [] = (opd, None)"
| "drainOperators lib opd (topOpt # opt) =
     (case calculate lib opd topOpt of
        (opd', Some e) \<Rightarrow> (opd', Some e)
      | (opd', None) \<Rightarrow> drainOperators lib opd' opt)"

definition popToArgs :: "evalState \<Rightarrow> evalState" where
  "popToArgs st =
     (case opfdStack st of
        [] \<Rightarrow> st
      | tok # rest \<Rightarrow> st\<lparr>opfdStack := rest, argsList := argsList st @ [tok]\<rparr>)"

definition functionStop ::
  "'f float_ops \<Rightarrow> (string \<Rightarrow> (Token list \<Rightarrow> string \<times> error option) option) \<Rightarrow> evalState
     \<Rightarrow> (Token \<times> error) + evalState" where
  "functionStop lib others st =
     (case drainOperators lib (opfdStack st) (opftStack st) of
        (opfd, Some e) \<Rightarrow> Inl (zeroToken, e)
      | (opfd, None) \<Rightarrow>
          (let st = popToArgs (st\<lparr>opfdStack := opfd, opftStack := []\<rparr>) in
           case opfStack st of
             [] \<Rightarrow> Inl (zeroToken, nilAssertion)
           | fnToken # opf \<Rightarrow>
               (case callFuncByName lib others (stripFunctionName (TValue fnToken)) (argsList st) of
                  (result, Some e) \<Rightarrow> Inl (zeroToken, e)
                | (result, None) \<Rightarrow>
                    (let st = st\<lparr>argsList := [], opfStack := opf\<rparr> in
                     if opf \<noteq> []
                     then Inr (st\<lparr>opfdStack := numberToken result # opfdStack st\<rparr>)
                     else Inr (st\<lparr>opdStack := numberToken result # opdStack st\<rparr>)))))"

definition inFunction ::
  "'f float_ops \<Rightarrow> (string \<Rightarrow> string \<Rightarrow> string \<times> error option)
     \<Rightarrow> (string \<Rightarrow> (Token list \<Rightarrow> string \<times> error option) option) \<Rightarrow> string
     \<Rightarrow> Token \<Rightarrow> Token \<Rightarrow> evalState \<Rightarrow> (Token \<times> error) + evalState" where
  "inFunction lib gcv others sheet token nextToken st =
     (if TSubType token = TokenSubTypeRange \<and> opftStack st \<noteq> [] then
        (case parseReference gcv sheet (TValue token) of
           (result, Some e) \<Rightarrow> Inl (zeroToken\<lparr>TValue := formulaErrorNAME\<rparr>, e)
         | (result, None) \<Rightarrow>
             if length result \<noteq> 1 then Inl (zeroToken, Err formulaErrorVALUE)
             else Inr (st\<lparr>opfdStack := numberToken (hd result) # opfdStack st\<rparr>))
      else if TSubType token = TokenSubTypeRange
              \<and> (TType nextToken = TokenTypeArgument \<or> TType nextToken = TokenTypeFunction) then
        (case parseReference gcv sheet (TValue token) of
           (result, Some e) \<Rightarrow> Inl (zeroToken\<lparr>TValue := formulaErrorNAME\<rparr>, e)
         | (result, None) \<Rightarrow>
             if length result = 0 then Inl (zeroToken, Err formulaErrorVALUE)
             else Inr (st\<lparr>argsList := argsList st @ map numberToken result\<rparr>))
      else
        (case parseToken lib gcv sheet token (opfdStack st) (opftStack st) of
           (_, Some e) \<Rightarrow> Inl (zeroToken, e)
         | ((opfd, opft), None) \<Rightarrow>
             (let st = st\<lparr>opfdStack := opfd, opftStack := opft\<rparr> in
              if TType token = TokenTypeArgument then
                (case drainOperators lib (opfdStack st) (opftStack st) of
                   (opfd', Some e) \<Rightarrow> Inl (zeroToken, e)
                 | (opfd', None) \<Rightarrow> Inr (popToArgs (st\<lparr>opfdStack := opfd', opftStack := []\<rparr>)))
              else
                (let st = (if TType token = TokenTypeOperand \<and> TSubType token = TokenSubTypeText
                           then st\<lparr>argsList := argsList st @ [token]\<rparr> else st) in
                 if TType token = TokenTypeFunction \<and> TSubType token = TokenSubTypeStop
                 then functionStop lib others st
                 else Inr st))))"

definition evalStep ::
  "'f float_ops \<Rightarrow> (string \<Rightarrow> string \<Rightarrow> string \<times> error option)
     \<Rightarrow> (string \<Rightarrow> (Token list \<Rightarrow> string \<times> error option) option) \<Rightarrow> string
     \<Rightarrow> Token \<Rightarrow> Token \<Rightarrow> evalState \<Rightarrow> (Token \<times> error) + evalState" where
  "evalStep lib gcv others sheet token nextToken st =
     (case (if opfStack st = []
            then parseToken lib gcv sheet token (opdStack st) (optStack st)
            else ((opdStack st, optStack st), None)) of
        (_, Some e) \<Rightarrow> Inl (zeroToken, e)
      | ((opd, opt), None) \<Rightarrow>
          (let st = st\<lparr>opdStack := opd, optStack := opt\<rparr> in
           if TType token = TokenTypeFunction \<and> TSubType token = TokenSubTypeStart
           then Inr (st\<lparr>opfStack := token # opfStack st\<rparr>)
           else if opfStack st \<noteq> []
           then inFunction lib gcv others sheet token nextToken st
           else Inr st))"

fun evalTokens ::
  "'f float_ops \<Rightarrow> (string \<Rightarrow> string \<Rightarrow> string \<times> error option)
     \<Rightarrow> (string \<Rightarrow> (Token list \<Rightarrow> string \<times> error option) option) \<Rightarrow> string
     \<Rightarrow> Token list \<Rightarrow> evalState \<Rightarrow> (Token \<times> error) + evalState" where
  "evalTokens lib gcv others sheet [] st = Inr st"
| "evalTokens lib gcv others sheet (token # tokens) st =
     (case evalStep lib gcv others sheet token (case tokens of [] \<Rightarrow> zeroToken | n # _ \<Rightarrow> n) st of
        Inl r \<Rightarrow> Inl r
      | Inr st' \<Rightarrow> evalTokens lib gcv others sheet tokens st')"

definition evalInfixExp ::
  "'f float_ops \<Rightarrow> (string \<Rightarrow> string \<Rightarrow> string \<times> error option)
     \<Rightarrow> (string \<Rightarrow> (Token list \<Rightarrow> string \<times> error option) option) \<Rightarrow> string
     \<Rightarrow> Token list \<Rightarrow> Token \<times> error option" where
  "evalInfixExp lib gcv others sheet tokens =
     (case evalTokens lib gcv others sheet tokens
             \<lparr>opdStack = [], optStack = [], opfStack = [], opfdStack = [], opftStack = [],
              argsList = []\<rparr> of
        Inl (token, e) \<Rightarrow> (token, Some e)
      | Inr st \<Rightarrow>
          (case drainOperators lib (opdStack st) (optStack st) of
             (opd, Some e) \<Rightarrow> (zeroToken, Some e)
           | (opd, None) \<Rightarrow>
               (case opd of
                  [] \<Rightarrow> (zeroToken, Some nilAssertion)
                | tok # _ \<Rightarrow> (tok, None))))"


text \<open>The tokens the tokenizer produces for operators, parentheses and function calls.\<close>

definition infixOperator :: "string \<Rightarrow> Token" where
  "infixOperator v = \<lparr>TValue = v, TType = TokenTypeOperatorInfix, TSubType = TokenSubTypeMath\<rparr>"

definition prefixMinus :: Token where
  "prefixMinus = \<lparr>TValue = ''-'', TType = TokenTypeOperatorPrefix, TSubType = TokenSubTypeNothing\<rparr>"



definition functionStart :: "string \<Rightarrow> Token" where
  "functionStart name = \<lparr>TValue = name, TType = TokenTypeFunction, TSubType = TokenSubTypeStart\<rparr>"

definition functionStopToken :: Token where
  "functionStopToken = \<lparr>TValue = [], TType = TokenTypeFunction, TSubType = TokenSubTypeStop\<rparr>"

section \<open>Worksheet store\<close>

text \<open>
  The structures of a worksheet, with the fields the functions below read or write.
  A field carries the name of its struct where two structs share a field name:
  \<open>cellR\<close> is \<open>xlsxC.R\<close>, \<open>rowR\<close> is \<open>xlsxRow.R\<close>, \<open>fT\<close> is \<open>xlsxF.T\<close>. A pointer that
  may be nil is an option. \<open>MergeCells\<close> holds the \<open>Ref\<close> of each merged area.
\<close>

record xlsxF =
  fContent :: string
  fT :: string
  fRef :: string
  fSi :: "int option"

record xlsxC =
  cellR :: string
  cellS :: int
  cellT :: string
  cellV :: string
  cellF :: "xlsxF option"
  cellIS :: "string option"

record xlsxRow =
  rowR :: int
  rowC :: "xlsxC list"

record xlsxWorksheet =
  SheetData :: "xlsxRow list"
  MergeCells :: "string option list option"

definition blankCell :: "string \<Rightarrow> xlsxC" where
  "blankCell name =
     \<lparr>cellR = name, cellS = 0, cellT = [], cellV = [], cellF = None, cellIS = None\<rparr>"

definition blankRow :: "int \<Rightarrow> xlsxRow" where
  "blankRow r = \<lparr>rowR = r, rowC = []\<rparr>"

subsection \<open>checkSheet\<close>

text \<open>The loop filling the map \<open>existsRows\<close> from row number to index.\<close>

fun existsRows :: "xlsxRow list \<Rightarrow> nat \<Rightarrow> (int \<rightharpoonup> nat) \<Rightarrow> (int \<rightharpoonup> nat)" where
  "existsRows [] k m = m"
| "existsRows (r # rs) k m = existsRows rs (Suc k) (m(rowR r \<mapsto> k))"

definition checkSheet :: "xlsxWorksheet \<Rightarrow> xlsxWorksheet" where
  "checkSheet xlsx =
     (let rows = SheetData xlsx;
          row = int (length rows);
          row = (if row \<ge> 1
                 then (let lastRow = rowR (last rows) in if lastRow \<ge> row then lastRow else row)
                 else row);
          ex = existsRows rows 0 Map.empty
      in xlsx\<lparr>SheetData :=
           map (\<lambda>i. case ex (int i + 1) of
                       Some k \<Rightarrow> rows ! k
                     | None \<Rightarrow> blankRow (int i + 1))
               [0..<nat row]\<rparr>)"

subsection \<open>checkRow\<close>

text \<open>
  The first loop over the cells of a row gives a reference to each cell without one.
  The error of \<open>CoordinatesToCellName\<close> is dropped there; the name it returns with an
  error is taken to be empty. The cells changed before a \<open>return err\<close> stay changed,
  so each loop returns the cells as it leaves them together with the error.
\<close>

fun fillReferences :: "int \<Rightarrow> xlsxC list \<Rightarrow> int \<Rightarrow> xlsxC list \<times> error option" where
  "fillReferences rn [] rCount = ([], None)"
| "fillReferences rn (cell # cells) rCount0 =
     (let rCount = rCount0 + 1 in
      if cellR cell \<noteq> [] then
        (case CellNameToCoordinates (cellR cell) of
           Inl e \<Rightarrow> (cell # cells, Some e)
         | Inr (lastR, _) \<Rightarrow>
             (case fillReferences rn cells (if lastR > rCount then lastR else rCount) of
                (cells', e) \<Rightarrow> (cell # cells', e)))
      else
        (case fillReferences rn cells rCount of
           (cells', e) \<Rightarrow>
             (cell\<lparr>cellR := (case CoordinatesToCellName rCount rn of
                                Inr name \<Rightarrow> name | Inl _ \<Rightarrow> [])\<rparr> # cells', e)))"

text \<open>The loop building \<open>newlist\<close>: one blank cell per column, named by its coordinates.\<close>

fun newCells :: "int \<Rightarrow> nat list \<Rightarrow> error + xlsxC list" where
  "newCells rn [] = Inr []"
| "newCells rn (colIdx # rest) =
     (case CoordinatesToCellName (int colIdx + 1) rn of
        Inl e \<Rightarrow> Inl e
      | Inr cellName \<Rightarrow>
          (case newCells rn rest of
             Inl e \<Rightarrow> Inl e
           | Inr cells \<Rightarrow> Inr (blankCell cellName # cells)))"

text \<open>
  The loop copying the old cells into \<open>newlist\<close> at the index of their column. An index
  outside the list panics.
\<close>

fun placeCells :: "xlsxC list \<Rightarrow> xlsxC list \<Rightarrow> xlsxC list \<times> error option" where
  "placeCells [] cells = (cells, None)"
| "placeCells (colData # oldList) cells =
     (case CellNameToCoordinates (cellR colData) of
        Inl e \<Rightarrow> (cells, Some e)
      | Inr (colNum, _) \<Rightarrow>
          if colNum - 1 < 0 \<or> colNum - 1 \<ge> int (length cells)
          then (cells, Some (Panic ''runtime error: index out of range''))
          else placeCells oldList (cells[nat (colNum - 1) := colData]))"

definition checkRowData :: "int \<Rightarrow> xlsxRow \<Rightarrow> xlsxRow \<times> error option" where
  "checkRowData rn rowData =
     (let colCount = int (length (rowC rowData)) in
      if colCount = 0 then (rowData, None)
      else
        (case fillReferences rn (rowC rowData) 0 of
           (cells, Some e) \<Rightarrow> (rowData\<lparr>rowC := cells\<rparr>, Some e)
         | (cells, None) \<Rightarrow>
             (case CellNameToCoordinates (cellR (last cells)) of
                Inl e \<Rightarrow> (rowData\<lparr>rowC := cells\<rparr>, Some e)
              | Inr (lastCol, _) \<Rightarrow>
                  if colCount < lastCol then
                    (case newCells rn [0..<nat lastCol] of
                       Inl e \<Rightarrow> (rowData\<lparr>rowC := []\<rparr>, Some e)
                     | Inr newlist \<Rightarrow>
                         (case placeCells cells newlist of
                            (cells', e) \<Rightarrow> (rowData\<lparr>rowC := cells'\<rparr>, e)))
                  else (rowData\<lparr>rowC := cells\<rparr>, None))))"

fun checkRows :: "nat \<Rightarrow> xlsxRow list \<Rightarrow> xlsxRow list \<times> error option" where
  "checkRows rowIdx [] = ([], None)"
| "checkRows rowIdx (rowData # rows) =
     (case checkRowData (int rowIdx + 1) rowData of
        (rowData', Some e) \<Rightarrow> (rowData' # rows, Some e)
      | (rowData', None) \<Rightarrow>
          (case checkRows (Suc rowIdx) rows of
             (rows', e) \<Rightarrow> (rowData' # rows', e)))"

definition checkRow :: "xlsxWorksheet \<Rightarrow> xlsxWorksheet \<times> error option" where
  "checkRow ws =
     (case checkRows 0 (SheetData ws) of (rows, e) \<Rightarrow> (ws\<lparr>SheetData := rows\<rparr>, e))"

subsection \<open>workSheetReader\<close>

text \<open>
  The part of \<open>File\<close> the worksheet store and the shared string table use. \<open>XLSX\<close> gives
  for the path of a part the worksheet that \<open>xml.Unmarshal\<close> decodes from its bytes (the
  decoder is an external collaborator, and its error is dropped by the program);
  \<open>Sheets\<close> is the cache \<open>f.Sheet\<close>. A \<open>*xlsxWorksheet\<close> points into that cache: the model
  hands out the key of the worksheet. \<open>trimSheetName\<close> is defined outside the sources
  and is a parameter \<open>trim\<close>.
\<close>

record xlsxSST =
  Count :: int
  UniqueCount :: int
  SI :: "string option list"

record File =
  checked :: "string \<rightharpoonup> bool"
  sheetMap :: "string \<rightharpoonup> string"
  Sheets :: "string \<rightharpoonup> xlsxWorksheet"
  XLSX :: "string \<Rightarrow> xlsxWorksheet"
  SharedStrings :: "xlsxSST option"
  sharedStringsXML :: xlsxSST
  sharedStringsMap :: "string \<rightharpoonup> int"

text \<open>
  \<open>densify\<close> is what the first load does to the decoded worksheet: \<open>checkSheet\<close>, then
  \<open>checkRow\<close>, whose error is dropped by \<open>workSheetReader\<close>.
\<close>

definition densify :: "xlsxWorksheet \<Rightarrow> xlsxWorksheet \<times> error option" where
  "densify xlsx = checkRow (checkSheet xlsx)"

definition workSheetReader ::
  "(string \<Rightarrow> string) \<Rightarrow> File \<Rightarrow> string \<Rightarrow> (string \<times> error option) \<times> File" where
  "workSheetReader trim f sheet =
     (case sheetMap f (trim sheet) of
        None \<Rightarrow> (([], Some (Err (''sheet '' @ sheet @ '' is not exist''))), f)
      | Some name \<Rightarrow>
          if Sheets f name = None then
            (let xlsx = XLSX f name in
             if \<not> (checked f name = Some True) then
               (case densify xlsx of
                  (xlsx', Some (Panic m)) \<Rightarrow> (([], Some (Panic m)), f)
                | (xlsx', _) \<Rightarrow>
                    ((name, None),
                     f\<lparr>checked := (checked f)(name \<mapsto> True), Sheets := (Sheets f)(name \<mapsto> xlsx')\<rparr>))
             else ((name, None), f\<lparr>Sheets := (Sheets f)(name \<mapsto> xlsx)\<rparr>))
          else ((name, None), f))"

subsection \<open>Well-formed and dense worksheets\<close>

text \<open>
  The notions the densification property is stated with. A cell is \<open>referenced\<close> when
  its reference is a valid cell name, and \<open>colOf\<close> is the column of that name. A row is
  well formed when its cells are referenced with strictly increasing columns, a sheet
  when its rows are well formed and carry strictly increasing row numbers from 1 up
  to the maximal row. A row is dense when its cells are in the columns 1, 2, ... in
  order with no gap and no repetition, a sheet when its rows are dense and numbered
  1, 2, ... in order. \<open>lastRowNumber\<close> is the number of the last row, \<open>rowAt\<close> the row
  of a given number or, failing that, the empty row of that number.
\<close>

definition referenced :: "xlsxC \<Rightarrow> bool" where
  "referenced c = (case CellNameToCoordinates (cellR c) of Inr _ \<Rightarrow> True | Inl _ \<Rightarrow> False)"

definition colOf :: "xlsxC \<Rightarrow> int" where
  "colOf c = (case CellNameToCoordinates (cellR c) of Inr (col, _) \<Rightarrow> col | Inl _ \<Rightarrow> 0)"

definition wellFormedRow :: "xlsxRow \<Rightarrow> bool" where
  "wellFormedRow r = (list_all referenced (rowC r) \<and> sorted_wrt (<) (map colOf (rowC r)))"

definition wellFormedSheet :: "xlsxWorksheet \<Rightarrow> bool" where
  "wellFormedSheet ws =
     (list_all wellFormedRow (SheetData ws)
      \<and> list_all (\<lambda>r. 1 \<le> rowR r \<and> rowR r \<le> TotalRows) (SheetData ws)
      \<and> sorted_wrt (<) (map rowR (SheetData ws)))"



definition rowAt :: "xlsxRow list \<Rightarrow> int \<Rightarrow> xlsxRow" where
  "rowAt rows i = (case find (\<lambda>r. rowR r = i) rows of Some r \<Rightarrow> r | None \<Rightarrow> blankRow i)"

definition lastRowNumber :: "xlsxRow list \<Rightarrow> int" where
  "lastRowNumber rows = (if rows = [] then 0 else rowR (last rows))"

definition cellName :: "int \<Rightarrow> int \<Rightarrow> string" where
  "cellName col row = ColumnNumberToName (nat col) @ Itoa row"




section \<open>Shared formulas\<close>



















section \<open>Shared string table\<close>

text \<open>
  An item of the table is the text of its \<open>T\<close> element, or nil. \<open>sharedStringsReader\<close>
  decodes the part on first use (\<open>sharedStringsXML\<close> is the decoded part) and fills the
  map from text to index. \<open>bstrMarshal\<close> is defined outside the sources and is a
  parameter; \<open>TotalCellChars\<close> is the limit of 32767 characters of a string cell
  (section 6 of the specification). \<open>sharedStringsLoader\<close> only restores a table kept
  in a temporary file and is left out: no temporary file is in play.
\<close>

definition TotalCellChars :: nat where
  "TotalCellChars = 32767"

fun fillStringsMap :: "string option list \<Rightarrow> int \<Rightarrow> (string \<rightharpoonup> int) \<Rightarrow> (string \<rightharpoonup> int)" where
  "fillStringsMap [] i m = m"
| "fillStringsMap (None # items) i m = fillStringsMap items (i + 1) m"
| "fillStringsMap (Some val # items) i m = fillStringsMap items (i + 1) (m(val \<mapsto> i))"

definition sharedStringsReader :: "File \<Rightarrow> xlsxSST \<times> File" where
  "sharedStringsReader f =
     (case SharedStrings f of
        Some sst \<Rightarrow> (sst, f)
      | None \<Rightarrow>
          (let sharedStrings = sharedStringsXML f;
               sharedStrings = (if UniqueCount sharedStrings = 0
                                then sharedStrings\<lparr>UniqueCount := Count sharedStrings\<rparr>
                                else sharedStrings)
           in (sharedStrings,
               f\<lparr>SharedStrings := Some sharedStrings,
                 sharedStringsMap := fillStringsMap (SI sharedStrings) 0 (sharedStringsMap f)\<rparr>)))"

text \<open>
  \<open>setCellStr\<close> gives the type, the value cut to the limit and marshalled, and whether
  the \<open>xml:space="preserve"\<close> attribute is set.
\<close>

definition setCellStr :: "(string \<Rightarrow> string) \<Rightarrow> string \<Rightarrow> string \<times> string \<times> bool" where
  "setCellStr bstrMarshal value0 =
     (let value = (if length value0 > TotalCellChars then take TotalCellChars value0 else value0);
          ns = (value \<noteq> [] \<and> (of_char (hd value) \<in> {9, 10, 13, 32 :: nat}
                                \<or> of_char (last value) \<in> {9, 10, 13, 32 :: nat}))
      in (''str'', bstrMarshal value, ns))"

definition setSharedString ::
  "(string \<Rightarrow> string) \<Rightarrow> File \<Rightarrow> string \<Rightarrow> (int \<times> error option) \<times> File" where
  "setSharedString bstrMarshal f0 val0 =
     (case sharedStringsReader f0 of
        (sst, f) \<Rightarrow>
          (case sharedStringsMap f val0 of
             Some i \<Rightarrow> ((i, None), f)
           | None \<Rightarrow>
               (let sst = sst\<lparr>Count := Count sst + 1, UniqueCount := UniqueCount sst + 1\<rparr>;
                    val = fst (snd (setCellStr bstrMarshal val0));
                    sst = sst\<lparr>SI := SI sst @ [Some val0]\<rparr>
                in ((UniqueCount sst - 1, None),
                    f\<lparr>SharedStrings := Some sst,
                      sharedStringsMap := (sharedStringsMap f)(val \<mapsto> UniqueCount sst - 1)\<rparr>))))"

section \<open>Reading cells\<close>

definition cellInRef :: "int \<times> int \<Rightarrow> int \<times> int \<times> int \<times> int \<Rightarrow> bool" where
  "cellInRef cell ref =
     (case cell of (c0, c1) \<Rightarrow>
        (case ref of (r0, r1, r2, r3) \<Rightarrow> c0 \<ge> r0 \<and> c0 \<le> r2 \<and> c1 \<ge> r1 \<and> c1 \<le> r3))"

definition checkCellInArea :: "string \<Rightarrow> string \<Rightarrow> bool \<times> error option" where
  "checkCellInArea cell area =
     (case CellNameToCoordinates cell of
        Inl e \<Rightarrow> (False, Some e)
      | Inr (col, row) \<Rightarrow>
          if length (Split area CHR '':'') \<noteq> 2 then (False, None)
          else (case areaRefToCoordinates area of
                  Inl e \<Rightarrow> (False, Some e)
                | Inr coordinates \<Rightarrow> (cellInRef (col, row) coordinates, None)))"

text \<open>
  The loop of \<open>mergeCellsParser\<close> over the merged areas: a nil entry is removed from the
  list, an area that holds the cell redirects to its first cell. The list is returned
  as the loop leaves it.
\<close>

fun mergeCellsLoop :: "string option list \<Rightarrow> string \<Rightarrow> string option list \<times> string \<times> error option" where
  "mergeCellsLoop [] axis = ([], axis, None)"
| "mergeCellsLoop (None # cells) axis = mergeCellsLoop cells axis"
| "mergeCellsLoop (Some ref # cells) axis =
     (case checkCellInArea axis ref of
        (ok, Some e) \<Rightarrow> (Some ref # cells, axis, Some e)
      | (ok, None) \<Rightarrow>
          (case mergeCellsLoop cells (if ok then hd (Split ref CHR '':'') else axis) of
             (cells', axis', e) \<Rightarrow> (Some ref # cells', axis', e)))"

definition mergeCellsParser :: "xlsxWorksheet \<Rightarrow> string \<Rightarrow> xlsxWorksheet \<times> string \<times> error option" where
  "mergeCellsParser ws axis0 =
     (let axis = ToUpper axis0 in
      case MergeCells ws of
        None \<Rightarrow> (ws, axis, None)
      | Some cells \<Rightarrow>
          (case mergeCellsLoop cells axis of
             (cells', axis', e) \<Rightarrow> (ws\<lparr>MergeCells := Some cells'\<rparr>, axis', e)))"

text \<open>
  The two loops of \<open>getCellStringFunc\<close>. The function \<open>fn\<close> reads one cell and gives the
  value, whether the value is to be returned, and the error; it may load the shared
  string table, so it takes and returns the file.
\<close>

fun findInCells ::
  "(File \<Rightarrow> xlsxWorksheet \<Rightarrow> xlsxC \<Rightarrow> (string \<times> bool \<times> error option) \<times> File)
     \<Rightarrow> File \<Rightarrow> xlsxWorksheet \<Rightarrow> string \<Rightarrow> xlsxC list \<Rightarrow> (string \<times> error option) option \<times> File" where
  "findInCells fn f ws axis [] = (None, f)"
| "findInCells fn f ws axis (colData # cells) =
     (if axis \<noteq> cellR colData then findInCells fn f ws axis cells
      else (case fn f ws colData of
              ((val, ok, Some e), f') \<Rightarrow> (Some ([], Some e), f')
            | ((val, ok, None), f') \<Rightarrow>
                if ok then (Some (val, None), f') else findInCells fn f' ws axis cells))"

fun findInRows ::
  "(File \<Rightarrow> xlsxWorksheet \<Rightarrow> xlsxC \<Rightarrow> (string \<times> bool \<times> error option) \<times> File)
     \<Rightarrow> File \<Rightarrow> xlsxWorksheet \<Rightarrow> string \<Rightarrow> int \<Rightarrow> xlsxRow list \<Rightarrow> (string \<times> error option) \<times> File" where
  "findInRows fn f ws axis row [] = (([], None), f)"
| "findInRows fn f ws axis row (rowData # rows) =
     (if rowR rowData \<noteq> row then findInRows fn f ws axis row rows
      else (case findInCells fn f ws axis (rowC rowData) of
              (Some r, f') \<Rightarrow> (r, f')
            | (None, f') \<Rightarrow> findInRows fn f' ws axis row rows))"

definition getCellStringFunc ::
  "(string \<Rightarrow> string) \<Rightarrow> File \<Rightarrow> string \<Rightarrow> string
     \<Rightarrow> (File \<Rightarrow> xlsxWorksheet \<Rightarrow> xlsxC \<Rightarrow> (string \<times> bool \<times> error option) \<times> File)
     \<Rightarrow> (string \<times> error option) \<times> File" where
  "getCellStringFunc trim f0 sheet axis0 fn =
     (case workSheetReader trim f0 sheet of
        ((name, Some e), f) \<Rightarrow> (([], Some e), f)
      | ((name, None), f) \<Rightarrow>
          (case Sheets f name of
             None \<Rightarrow> (([], Some (Panic ''invalid memory address or nil pointer dereference'')), f)
           | Some ws0 \<Rightarrow>
               (case mergeCellsParser ws0 axis0 of
                  (ws, axis, err) \<Rightarrow>
                    (let f = f\<lparr>Sheets := (Sheets f)(name \<mapsto> ws)\<rparr> in
                     case err of
                       Some e \<Rightarrow> (([], Some e), f)
                     | None \<Rightarrow>
                         (case CellNameToCoordinates axis of
                            Inl e \<Rightarrow> (([], Some e), f)
                          | Inr (_, row) \<Rightarrow>
                              (let lastRowNum = (if length (SheetData ws) > 0
                                                 then rowR (last (SheetData ws)) else 0) in
                               if row > lastRowNum then (([], None), f)
                               else findInRows fn f ws axis row (SheetData ws)))))))"

text \<open>
  \<open>strconv.Atoi\<close> with its error dropped: the number of an optionally signed run of
  decimal digits, cut to the 64-bit range, and 0 for any other text.
\<close>

definition atoiValue :: "string \<Rightarrow> int" where
  "atoiValue s =
     (let neg = (s \<noteq> [] \<and> hd s = CHR ''-'');
          ds = (if s \<noteq> [] \<and> (hd s = CHR ''-'' \<or> hd s = CHR ''+'') then tl s else s) in
      if ds \<noteq> [] \<and> list_all is_digit ds
      then (let n = (if neg then - 1 else 1) * int (digits_nat ds) in
            if n > 9223372036854775807 then 9223372036854775807
            else if n < - 9223372036854775808 then - 9223372036854775808 else n)
      else 0)"

text \<open>
  Reading a value goes through three functions that depend on the style sheet, on
  floating-point rounding and on the escaping of XML text: the rendering of a value
  that \<open>formattedValue\<close> performs when the raw value is not asked for, \<open>roundPrecision\<close>
  and \<open>bstrUnmarshal\<close>. They are parameters, collected in a record. The text of a
  shared string item is the unmarshalled text of its \<open>T\<close> element, empty when \<open>T\<close> is
  nil (items made of rich-text runs are not represented). \<open>getValueFrom\<close> is the function
  of \<open>rows.go\<close> with the flag for raw values that \<open>GetCellValue\<close> passes to it; an index
  below zero into the string items is the panic of the Go runtime.
\<close>

record valueOps =
  renderValue :: "int \<Rightarrow> string \<Rightarrow> string"
  roundPrecision :: "string \<Rightarrow> error + string"
  bstrUnmarshal :: "string \<Rightarrow> string"

definition formattedValue :: "valueOps \<Rightarrow> int \<Rightarrow> string \<Rightarrow> bool \<Rightarrow> string" where
  "formattedValue ops s v raw = (if raw then v else renderValue ops s v)"

definition itemString :: "valueOps \<Rightarrow> string option \<Rightarrow> string" where
  "itemString ops x = (case x of Some val \<Rightarrow> bstrUnmarshal ops val | None \<Rightarrow> [])"

definition getValueFrom :: "valueOps \<Rightarrow> xlsxC \<Rightarrow> xlsxSST \<Rightarrow> bool \<Rightarrow> string \<times> error option" where
  "getValueFrom ops c d raw =
     (if cellT c = ''s'' then
        (if cellV c \<noteq> [] \<and> int (length (SI d)) > atoiValue (cellV c) then
           (if atoiValue (cellV c) < 0 then ([], Some (Panic ''index out of range''))
            else (formattedValue ops (cellS c)
                    (itemString ops (SI d ! nat (atoiValue (cellV c)))) raw, None))
         else (formattedValue ops (cellS c) (cellV c) raw, None))
      else if cellT c = ''str'' then (formattedValue ops (cellS c) (cellV c) raw, None)
      else if cellT c = ''inlineStr'' then
        (case cellIS c of
           Some t \<Rightarrow> (formattedValue ops (cellS c) (bstrUnmarshal ops t) raw, None)
         | None \<Rightarrow> (formattedValue ops (cellS c) (cellV c) raw, None))
      else
        (let splited = Split (cellV c) CHR ''.'' in
         if length splited = 2 \<and> length (splited ! 1) > 15 then
           (case roundPrecision ops (cellV c) of
              Inl e \<Rightarrow> ([], Some e)
            | Inr val \<Rightarrow>
                if val \<noteq> cellV c then (formattedValue ops (cellS c) val raw, None)
                else (formattedValue ops (cellS c) (cellV c) raw, None))
         else (formattedValue ops (cellS c) (cellV c) raw, None)))"

text \<open>
  \<open>cellValue\<close> and \<open>cellFormula\<close> are the function literals that \<open>GetCellValue\<close> and
  \<open>GetCellFormula\<close> pass to \<open>getCellStringFunc\<close>.
\<close>

definition cellValue ::
  "valueOps \<Rightarrow> bool \<Rightarrow> File \<Rightarrow> xlsxWorksheet \<Rightarrow> xlsxC \<Rightarrow> (string \<times> bool \<times> error option) \<times> File" where
  "cellValue ops raw f x c =
     (case sharedStringsReader f of
        (d, f') \<Rightarrow> (case getValueFrom ops c d raw of (val, err) \<Rightarrow> ((val, True, err), f')))"

definition GetCellValue ::
  "(string \<Rightarrow> string) \<Rightarrow> valueOps \<Rightarrow> File \<Rightarrow> string \<Rightarrow> string \<Rightarrow> bool
     \<Rightarrow> (string \<times> error option) \<times> File" where
  "GetCellValue trim ops f sheet axis raw = getCellStringFunc trim f sheet axis (cellValue ops raw)"



subsection \<open>Notions and examples for the properties of reading and interning\<close>






definition sheetMerged :: xlsxWorksheet where
  "sheetMerged =
     \<lparr>SheetData =
        [\<lparr>rowR = 1, rowC =
            [(blankCell ''A1'')\<lparr>cellF := Some \<lparr>fContent = ''=1+2'', fT = [],
                                               fRef = [], fSi = None\<rparr>\<rparr>]\<rparr>],
      MergeCells = Some [Some ''A1:B2'']\<rparr>"

definition plainOps :: valueOps where
  "plainOps = \<lparr>renderValue = (\<lambda>s v. v), roundPrecision = Inr, bstrUnmarshal = (\<lambda>s. s)\<rparr>"

(*THEOREMS*)

section \<open>Properties of the formula engine\<close>

subsection \<open>Cross-sheet ranges\<close>

text \<open>
  C1. The claim: a range whose two ends name different sheets makes the resolver
  return an error. \<open>rangeResolver\<close> assigns \<open>#VALUE!\<close> to \<open>err\<close> for such a range and
  goes on; the first cell of the range assigns \<open>err\<close> again, so the error is lost. With a
  \<open>GetCellValue\<close> that succeeds on every cell (it gives \<open>v sheet cell\<close>), the range from
  \<open>Sheet1!A1\<close> to \<open>Sheet2!B1\<close> resolves to the values of \<open>A1\<close> and \<open>B1\<close> on the sheet
  of its first end with no error, and so does the reference \<open>Sheet2!A1:B1\<close> read on
  \<open>Sheet1\<close>, whose second end carries the empty sheet name.
\<close>

theorem C1_cross_sheet_range_resolved:
  "rangeResolver (\<lambda>sheet cell. (v sheet cell, None)) []
     [\<lparr>From = \<lparr>Col = 1, Row = 1, Sheet = ''Sheet1''\<rparr>,
       To = \<lparr>Col = 2, Row = 1, Sheet = ''Sheet2''\<rparr>\<rparr>]
     = ([v ''Sheet1'' ''A1'', v ''Sheet1'' ''B1''], None)
   \<and> parseReference (\<lambda>sheet cell. (v sheet cell, None)) ''Sheet1'' ''Sheet2!A1:B1''
     = ([v ''Sheet2'' ''A1'', v ''Sheet2'' ''B1''], None)"
  by code_simp

subsection \<open>ARABIC\<close>

lemma arabicLoop_append:
  "arabicLoop (a @ b) st = (case arabicLoop a st of Inl r \<Rightarrow> Inl r | Inr st' \<Rightarrow> arabicLoop b st')"
proof (induction a arbitrary: st)
  case Nil
  show ?case by simp
next
  case (Cons c cs)
  obtain v l p where st: "st = (v, l, p)" by (cases st) auto
  show ?case unfolding st by (auto simp: Cons Let_def)
qed

lemma arabicLoop_Inl: "arabicLoop a st = Inl r \<Longrightarrow> r = formulaErrorVALUE"
proof (induction a arbitrary: st)
  case Nil
  then show ?case by simp
next
  case (Cons c cs)
  obtain v l p where st: "st = (v, l, p)" by (cases st) auto
  from Cons.prems show ?case unfolding st
    by (auto simp: Let_def split: if_splits dest: Cons.IH)
qed

lemma arabicLoop_pair:
  assumes "c \<noteq> rune CHR ''-''" "d \<noteq> rune CHR ''-''"
    and "(arabicDigit d = arabicDigit c \<and> arabicDigit c \<in> {5, 50, 500})
         \<or> arabicDigit d = 2 * arabicDigit c"
  shows "arabicLoop (c # d # b) st = Inl formulaErrorVALUE"
proof -
  obtain v l p where st: "st = (v, l, p)" by (cases st) auto
  show ?thesis unfolding st using assms by (auto simp: Let_def)
qed

lemma arabicLoop_contains:
  assumes "c \<noteq> rune CHR ''-''" "d \<noteq> rune CHR ''-''"
    and "(arabicDigit d = arabicDigit c \<and> arabicDigit c \<in> {5, 50, 500})
         \<or> arabicDigit d = 2 * arabicDigit c"
  shows "arabicLoop (a @ c # d # b) st = Inl formulaErrorVALUE"
proof (cases "arabicLoop a st")
  case (Inl r)
  then show ?thesis using arabicLoop_Inl[OF Inl] by (simp add: arabicLoop_append)
next
  case (Inr st')
  then show ?thesis using arabicLoop_pair[OF assms] by (simp add: arabicLoop_append)
qed

lemma runesFrom_ascii: "list_all (\<lambda>b. b < 128) bs \<Longrightarrow> runesFrom 0 bs = bs"
  by (induction bs) auto

lemma runes_ascii: "list_all (\<lambda>c. rune c < 128) text \<Longrightarrow> runes text = map rune text"
proof -
  assume "list_all (\<lambda>c. rune c < 128) text"
  then have "list_all (\<lambda>b. b < 128) (map of_char text :: nat list)"
    by (simp add: list_all_iff rune_def)
  then have "runesFrom 0 (map of_char text) = (map of_char text :: nat list)"
    by (rule runesFrom_ascii)
  then show ?thesis by (simp add: runes_def rune_def)
qed

text \<open>
  C2, the claim as stated fails: the text \<open>IIII\<close> has no digit of value 5, 50 or 500 and
  no digit that is the double of the one before it, and \<open>ARABIC\<close> returns \<open>4\<close> for it,
  not \<open>#VALUE!\<close>.
\<close>

theorem C2_arabic_IIII_counterexample:
  "ARABIC [numberToken ''IIII''] = (''4'', None)
   \<and> fst (ARABIC [numberToken ''IIII'']) \<noteq> formulaErrorVALUE"
  by code_simp

text \<open>
  C2, amended: \<open>ARABIC\<close> returns the result \<open>#VALUE!\<close> whenever the runes of its text
  contain two adjacent digits \<open>c d\<close> where \<open>d\<close> repeats a \<open>c\<close> of value 5, 50 or 500
  (\<open>VV\<close>, \<open>LL\<close>, \<open>DD\<close>) or where the value of \<open>d\<close> is exactly twice the value of \<open>c\<close>
  (\<open>VX\<close>, \<open>LC\<close>, \<open>DM\<close>); for a text of ASCII bytes the runes are the bytes.
  \<open>ARABIC("IV")\<close> returns \<open>4\<close>, and so does \<open>ARABIC("IIII")\<close>: a repeated unit digit is
  accepted. A rune of several bytes is one digit of value 0: the text \<open>I\<close> followed by
  the two bytes of \<open>U+00E9\<close> gives \<open>1\<close>.
\<close>

theorem C2_arabic_invalid_patterns:
  "(runes (TValue t) = a @ c # d # b \<and> c \<noteq> rune CHR ''-'' \<and> d \<noteq> rune CHR ''-''
      \<and> ((arabicDigit d = arabicDigit c \<and> arabicDigit c \<in> {5, 50, 500})
          \<or> arabicDigit d = 2 * arabicDigit c)
      \<longrightarrow> ARABIC [t] = (formulaErrorVALUE, None))
   \<and> (list_all (\<lambda>c. rune c < 128) (TValue t) \<and> TValue t = x @ y # z # w
      \<and> y \<noteq> CHR ''-'' \<and> z \<noteq> CHR ''-''
      \<and> ((arabicDigit (rune z) = arabicDigit (rune y) \<and> arabicDigit (rune y) \<in> {5, 50, 500})
          \<or> arabicDigit (rune z) = 2 * arabicDigit (rune y))
      \<longrightarrow> ARABIC [t] = (formulaErrorVALUE, None))
   \<and> ARABIC [numberToken ''IV''] = (''4'', None)
   \<and> ARABIC [numberToken ''IIII''] = (''4'', None)
   \<and> ARABIC [numberToken [CHR ''I'', CHR 0xC3, CHR 0xA9]] = (''1'', None)"
proof -
  have general: "ARABIC [t] = (formulaErrorVALUE, None)"
    if "runes (TValue t) = a @ c # d # b" "c \<noteq> rune CHR ''-''" "d \<noteq> rune CHR ''-''"
      "(arabicDigit d = arabicDigit c \<and> arabicDigit c \<in> {5, 50, 500})
       \<or> arabicDigit d = 2 * arabicDigit c"
    for a c d b
    using arabicLoop_contains[OF that(2-4)] that(1) by (simp add: ARABIC_def)
  have ascii: "ARABIC [t] = (formulaErrorVALUE, None)"
    if h: "list_all (\<lambda>c. rune c < 128) (TValue t)" "TValue t = x @ y # z # w"
      "y \<noteq> CHR ''-''" "z \<noteq> CHR ''-''"
      "(arabicDigit (rune z) = arabicDigit (rune y) \<and> arabicDigit (rune y) \<in> {5, 50, 500})
       \<or> arabicDigit (rune z) = 2 * arabicDigit (rune y)"
  proof -
    have "runes (TValue t) = map rune x @ rune y # rune z # map rune w"
      using runes_ascii[OF h(1)] h(2) by simp
    moreover have "rune y \<noteq> rune CHR ''-''" "rune z \<noteq> rune CHR ''-''"
      using h(3,4) unfolding rune_def by (simp_all only: of_char_eq_iff not_False_eq_True)
    ultimately show ?thesis using general h(5) by blast
  qed
  have "ARABIC [numberToken ''IV''] = (''4'', None)" by code_simp
  moreover have "ARABIC [numberToken ''IIII''] = (''4'', None)" by code_simp
  moreover have "ARABIC [numberToken [CHR ''I'', CHR 0xC3, CHR 0xA9]] = (''1'', None)" by code_simp
  ultimately show ?thesis using general ascii by blast
qed

text \<open>
  Witness of C2: the texts \<open>MVVI\<close> (a repeated \<open>V\<close>) and \<open>ILC\<close> (\<open>C\<close> is twice \<open>L\<close>), the
  first read as runes and the second as ASCII bytes.
\<close>

theorem C2_arabic_invalid_patterns_witness:
  "runes (TValue (numberToken ''MVVI'')) = [rune CHR ''M''] @ rune CHR ''V'' # rune CHR ''V'' # [rune CHR ''I'']
   \<and> rune CHR ''V'' \<noteq> rune CHR ''-''
   \<and> arabicDigit (rune CHR ''V'') = 5
   \<and> ARABIC [numberToken ''MVVI''] = (formulaErrorVALUE, None)
   \<and> list_all (\<lambda>c. rune c < 128) (TValue (numberToken ''ILC''))
   \<and> TValue (numberToken ''ILC'') = ''I'' @ CHR ''L'' # CHR ''C'' # []
   \<and> arabicDigit (rune CHR ''C'') = 2 * arabicDigit (rune CHR ''L'')
   \<and> ARABIC [numberToken ''ILC''] = (formulaErrorVALUE, None)"
proof -
  have h1: "runes (TValue (numberToken ''MVVI''))
            = [rune CHR ''M''] @ rune CHR ''V'' # rune CHR ''V'' # [rune CHR ''I'']"
    by code_simp
  have h2: "rune CHR ''V'' \<noteq> rune CHR ''-''" "arabicDigit (rune CHR ''V'') = 5"
    by (simp_all add: arabicDigit_def rune_def)
  have h3: "list_all (\<lambda>c. rune c < 128) (TValue (numberToken ''ILC''))"
    "TValue (numberToken ''ILC'') = ''I'' @ CHR ''L'' # CHR ''C'' # []"
    by (simp_all add: numberToken_def rune_def)
  have h4: "arabicDigit (rune CHR ''C'') = 2 * arabicDigit (rune CHR ''L'')"
    by (simp add: arabicDigit_def rune_def)
  have h5: "CHR ''L'' \<noteq> CHR ''-''" "CHR ''C'' \<noteq> CHR ''-''" by simp_all
  have "ARABIC [numberToken ''MVVI''] = (formulaErrorVALUE, None)"
    using C2_arabic_invalid_patterns[of "numberToken ''MVVI''" "[rune CHR ''M'']" "rune CHR ''V''"
        "rune CHR ''V''" "[rune CHR ''I'']"] h1 h2
    by simp
  moreover have "ARABIC [numberToken ''ILC''] = (formulaErrorVALUE, None)"
    using C2_arabic_invalid_patterns[of "numberToken ''ILC''" _ _ _ _ "''I''" "CHR ''L''" "CHR ''C''" "[]"]
      h3 h4 h5
    by simp
  ultimately show ?thesis using h1 h2 h3 h4 by simp
qed

subsection \<open>Operator precedence\<close>


subsection \<open>Division by zero\<close>

text \<open>
  C6, the claim as stated fails: \<open>calculate\<close> parses the left operand before it looks
  at the right one. In \<open>=A1/0\<close> with an empty cell \<open>A1\<close> the operand stack holds the
  empty text under \<open>0\<close>; the right operand parses to zero, and the step returns the
  syntax error of the left operand, not \<open>#DIV/0!\<close>.
\<close>

theorem C6_unparsed_left_operand_counterexample:
  "ParseFloat int_ops (TValue (numberToken ''0'')) = Inr 0
   \<and> feq int_ops 0 (fzero int_ops)
   \<and> calculate int_ops [numberToken ''0'', numberToken []] (infixOperator ''/'')
       = ([], Some (SyntaxError []))
   \<and> snd (calculate int_ops [numberToken ''0'', numberToken []] (infixOperator ''/''))
       \<noteq> Some (Err formulaErrorDIV)"
  by code_simp

text \<open>
  C6, amended: for every step applying the operator \<open>/\<close> to an operand stack with a
  right operand on top of a left operand, when the left operand parses to a number and
  the right operand parses to a number equal to zero, the step returns the error
  \<open>#DIV/0!\<close>: both operands are popped, no result is pushed and nothing panics. This
  holds for any numeric library. Evaluating \<open>=1/0\<close> yields \<open>#DIV/0!\<close>.
\<close>

theorem C6_division_by_zero:
  assumes "TValue opt = ''/''"
    and "ParseFloat lib (TValue lOpd) = Inr l"
    and "ParseFloat lib (TValue rOpd) = Inr r"
    and "feq lib r (fzero lib)"
  shows "calculate lib (rOpd # lOpd # rest) opt = (rest, Some (Err formulaErrorDIV))
    \<and> \<not> is_panic (snd (calculate lib (rOpd # lOpd # rest) opt))
    \<and> evalInfixExp int_ops gcv others sheet
         [numberToken ''1'', infixOperator ''/'', numberToken ''0'']
       = (zeroToken, Some (Err formulaErrorDIV))"
proof -
  have "calculate lib (rOpd # lOpd # rest) opt = (rest, Some (Err formulaErrorDIV))"
    using assms by (simp add: calculate_def andThen_def binary_def)
  moreover have "evalInfixExp int_ops gcv others sheet
         [numberToken ''1'', infixOperator ''/'', numberToken ''0'']
       = (zeroToken, Some (Err formulaErrorDIV))"
    by code_simp
  ultimately show ?thesis by simp
qed

text \<open>Witness of C6: the step \<open>1 / 0\<close> above an operand \<open>5\<close> that stays on the stack.\<close>

theorem C6_division_by_zero_witness:
  "TValue (infixOperator ''/'') = ''/''
   \<and> ParseFloat int_ops (TValue (numberToken ''1'')) = Inr 1
   \<and> ParseFloat int_ops (TValue (numberToken ''0'')) = Inr 0
   \<and> feq int_ops 0 (fzero int_ops)
   \<and> calculate int_ops [numberToken ''0'', numberToken ''1'', numberToken ''5'']
        (infixOperator ''/'')
      = ([numberToken ''5''], Some (Err formulaErrorDIV))"
proof -
  have h1: "TValue (infixOperator ''/'') = ''/''" by (simp add: infixOperator_def)
  have h2: "ParseFloat int_ops (TValue (numberToken ''1'')) = Inr 1" by code_simp
  have h3: "ParseFloat int_ops (TValue (numberToken ''0'')) = Inr 0" by code_simp
  have h4: "feq int_ops 0 (fzero int_ops)" by (simp add: int_ops_def)
  show ?thesis
    using C6_division_by_zero[OF h1 h2 h3 h4, of "[numberToken ''5'']"] h1 h2 h3 h4 by simp
qed

subsection \<open>Domain violations of library functions\<close>

text \<open>
  C7, the claim as stated fails: \<open>SQRT\<close> of a negative number returns the code
  \<open>#NUM!\<close> as the error of the call; the result it returns is the empty text.
\<close>

theorem C7_sqrt_result_counterexample:
  "SQRT int_ops [numberToken ''-1''] = ([], Some (Err formulaErrorNUM))
   \<and> fst (SQRT int_ops [numberToken ''-1'']) \<noteq> formulaErrorNUM"
  by code_simp

text \<open>
  C7, amended: a domain violation of a library function returns the spreadsheet error
  code as the error of the call, with an empty result: \<open>SQRT\<close> of an argument that
  parses to a negative number returns the error \<open>#NUM!\<close>, \<open>POWER(0, y)\<close> with \<open>y\<close>
  negative returns the error \<open>#DIV/0!\<close>, \<open>POWER(0, 0)\<close> returns the error \<open>#NUM!\<close>.
  This holds for any numeric library. Evaluating \<open>=SQRT(-1)\<close> yields the error \<open>#NUM!\<close>
  and the zero token.
\<close>

theorem C7_domain_violations:
  "(ParseFloat lib (TValue t) = Inr v \<and> flt lib v (fzero lib)
      \<longrightarrow> SQRT lib [t] = ([], Some (Err formulaErrorNUM)))
   \<and> (ParseFloat lib (TValue tx) = Inr x \<and> ParseFloat lib (TValue ty) = Inr y
       \<and> feq lib x (fzero lib) \<and> flt lib y (fzero lib) \<and> \<not> feq lib y (fzero lib)
      \<longrightarrow> POWER lib [tx, ty] = ([], Some (Err formulaErrorDIV)))
   \<and> (ParseFloat lib (TValue tx) = Inr x \<and> ParseFloat lib (TValue ty) = Inr y
       \<and> feq lib x (fzero lib) \<and> feq lib y (fzero lib)
      \<longrightarrow> POWER lib [tx, ty] = ([], Some (Err formulaErrorNUM)))
   \<and> evalInfixExp int_ops gcv others sheet
        [functionStart ''SQRT'', prefixMinus, numberToken ''1'', functionStopToken]
      = (zeroToken, Some (Err formulaErrorNUM))"
proof -
  have "evalInfixExp int_ops gcv others sheet
        [functionStart ''SQRT'', prefixMinus, numberToken ''1'', functionStopToken]
      = (zeroToken, Some (Err formulaErrorNUM))"
    by code_simp
  then show ?thesis by (simp add: SQRT_def POWER_def)
qed

text \<open>Witness of C7: \<open>SQRT(-4)\<close>, \<open>POWER(0, -2)\<close> and \<open>POWER(0, 0)\<close>.\<close>

theorem C7_domain_violations_witness:
  "ParseFloat int_ops (TValue (numberToken ''-4'')) = Inr (- 4) \<and> flt int_ops (- 4) (fzero int_ops)
   \<and> SQRT int_ops [numberToken ''-4''] = ([], Some (Err formulaErrorNUM))
   \<and> ParseFloat int_ops (TValue (numberToken ''0'')) = Inr 0
   \<and> ParseFloat int_ops (TValue (numberToken ''-2'')) = Inr (- 2)
   \<and> feq int_ops 0 (fzero int_ops) \<and> flt int_ops (- 2) (fzero int_ops)
   \<and> \<not> feq int_ops (- 2) (fzero int_ops)
   \<and> POWER int_ops [numberToken ''0'', numberToken ''-2''] = ([], Some (Err formulaErrorDIV))
   \<and> POWER int_ops [numberToken ''0'', numberToken ''0''] = ([], Some (Err formulaErrorNUM))"
proof -
  have h1: "ParseFloat int_ops (TValue (numberToken ''-4'')) = Inr (- 4)" by code_simp
  have h2: "flt int_ops (- 4) (fzero int_ops)" by (simp add: int_ops_def)
  have h3: "ParseFloat int_ops (TValue (numberToken ''0'')) = Inr 0" by code_simp
  have h4: "ParseFloat int_ops (TValue (numberToken ''-2'')) = Inr (- 2)" by code_simp
  have h5: "feq int_ops 0 (fzero int_ops)" "flt int_ops (- 2) (fzero int_ops)"
    "\<not> feq int_ops (- 2) (fzero int_ops)" by (simp_all add: int_ops_def)
  have "SQRT int_ops [numberToken ''-4''] = ([], Some (Err formulaErrorNUM))"
    using C7_domain_violations[of int_ops "numberToken ''-4''" "- 4"] h1 h2 by blast
  moreover have "POWER int_ops [numberToken ''0'', numberToken ''-2''] = ([], Some (Err formulaErrorDIV))"
    using C7_domain_violations[of int_ops _ _ "numberToken ''0''" 0 "numberToken ''-2''" "- 2"]
      h3 h4 h5 by blast
  moreover have "POWER int_ops [numberToken ''0'', numberToken ''0''] = ([], Some (Err formulaErrorNUM))"
    using C7_domain_violations[of int_ops _ _ "numberToken ''0''" 0 "numberToken ''0''" 0]
      h3 h5 by blast
  ultimately show ?thesis using h1 h2 h3 h4 h5 by simp
qed

subsection \<open>GCD and LCM\<close>

text \<open>
  C9. The claim: with at least one argument \<open>GCD\<close> and \<open>LCM\<close> never crash, also when
  every argument has an empty text. Both functions skip the arguments with an empty
  text and then read \<open>nums[0]\<close>: with one argument of empty text (the value of an empty
  cell) the slice is empty and the read panics, whatever the numeric library.
\<close>

theorem C9_gcd_lcm_empty_text_panics:
  "GCD_fn lib [numberToken []] = ([], Some indexOutOfRange)
   \<and> LCM_fn lib [numberToken []] = ([], Some indexOutOfRange)
   \<and> is_panic (snd (GCD_fn lib [numberToken []]))
   \<and> is_panic (snd (LCM_fn lib [numberToken []]))"
  by (simp add: GCD_fn_def LCM_fn_def numberToken_def indexOutOfRange_def)

section \<open>Properties of the worksheet store\<close>

subsection \<open>Cell names and coordinates\<close>



















subsection \<open>Densification\<close>

lemma existsRows_other:
  "\<forall>r\<in>set rs. rowR r \<noteq> i \<Longrightarrow> existsRows rs k m i = m i"
  by (induction rs arbitrary: k m) auto

lemma existsRows_nth:
  "distinct (map rowR rs) \<Longrightarrow> j < length rs \<Longrightarrow> existsRows rs k m (rowR (rs ! j)) = Some (k + j)"
proof (induction rs arbitrary: k m j)
  case Nil
  then show ?case by simp
next
  case (Cons r rs)
  show ?case
  proof (cases j)
    case 0
    have "\<forall>r'\<in>set rs. rowR r' \<noteq> rowR r" using Cons.prems(1) by (auto simp: image_iff)
    then show ?thesis using 0 by (simp add: existsRows_other)
  next
    case (Suc j')
    then show ?thesis using Cons.IH[of j' "Suc k"] Cons.prems by simp
  qed
qed

lemma upto_from_one: "map (\<lambda>i. int i + 1) [0..<n] = [1..int n]"
proof (induction n)
  case 0
  show ?case by simp
next
  case (Suc n)
  have "[1..int (Suc n)] = [1..int n] @ [int n + 1]"
    using upto_rec2[of 1 "int n + 1"] by (simp add: add.commute)
  with Suc show ?case by simp
qed

lemma sorted_positive_ge_index:
  assumes "sorted_wrt (<) (xs :: int list)" "\<forall>x\<in>set xs. 1 \<le> x" "i < length xs"
  shows "int i + 1 \<le> xs ! i"
  using assms
proof (induction i)
  case 0
  then show ?case by (cases xs) auto
next
  case (Suc i)
  then have "xs ! i < xs ! Suc i" by (simp add: sorted_wrt_nth_less)
  moreover have "int i + 1 \<le> xs ! i" using Suc by simp
  ultimately show ?case by simp
qed

lemma sorted_last_max:
  assumes "sorted_wrt (<) (xs :: int list)" "x \<in> set xs"
  shows "x \<le> last xs"
proof -
  from assms(2) obtain i where i: "i < length xs" "xs ! i = x" by (auto simp: in_set_conv_nth)
  then have ne: "xs \<noteq> []" by auto
  show ?thesis
  proof (cases "i = length xs - 1")
    case True
    then show ?thesis using i ne by (simp add: last_conv_nth)
  next
    case False
    then have "i < length xs - 1" "length xs - 1 < length xs" using i by auto
    then have "xs ! i < xs ! (length xs - 1)" using assms(1) sorted_wrt_nth_less by blast
    then show ?thesis using i ne by (simp add: last_conv_nth)
  qed
qed


lemma existsRows_rowAt:
  assumes "distinct (map rowR rows)"
  shows "(case existsRows rows 0 Map.empty i of Some k \<Rightarrow> rows ! k | None \<Rightarrow> blankRow i) = rowAt rows i"
proof (cases "i \<in> rowR ` set rows")
  case True
  then obtain j where j: "j < length rows" "rowR (rows ! j) = i"
    by (auto simp: in_set_conv_nth)
  have ex: "existsRows rows 0 Map.empty i = Some j"
    using existsRows_nth[OF assms j(1), of 0 Map.empty] j(2) by simp
  obtain r where r: "find (\<lambda>r. rowR r = i) rows = Some r"
    using True by (cases "find (\<lambda>r. rowR r = i) rows") (auto simp: find_None_iff)
  then have "r \<in> set rows" "rowR r = i" by (auto simp: find_Some_iff)
  then obtain j' where j': "j' < length rows" "rows ! j' = r" by (auto simp: in_set_conv_nth)
  have "j' = j"
    using assms j j' \<open>rowR r = i\<close> by (metis distinct_conv_nth length_map nth_map)
  then show ?thesis using ex r j' by (simp add: rowAt_def)
next
  case False
  then have "\<forall>r\<in>set rows. rowR r \<noteq> i" by auto
  then have "existsRows rows 0 Map.empty i = None" by (simp add: existsRows_other)
  moreover have "find (\<lambda>r. rowR r = i) rows = None" using False by (auto simp: find_None_iff)
  ultimately show ?thesis by (simp add: rowAt_def)
qed

lemma rowAt_rowR: "rowR (rowAt rows i) = i"
  by (auto simp: rowAt_def blankRow_def find_Some_iff split: option.splits)



lemma wellFormed_rows:
  assumes "wellFormedSheet ws"
  shows "distinct (map rowR (SheetData ws))"
    and "SheetData ws \<noteq> [] \<Longrightarrow> int (length (SheetData ws)) \<le> rowR (last (SheetData ws))"
    and "lastRowNumber (SheetData ws) \<le> TotalRows"
    and "r \<in> set (SheetData ws) \<Longrightarrow> 1 \<le> rowR r \<and> rowR r \<le> lastRowNumber (SheetData ws)"
proof -
  let ?rows = "SheetData ws"
  from assms have s: "sorted_wrt (<) (map rowR ?rows)"
    and b: "\<forall>r\<in>set ?rows. 1 \<le> rowR r \<and> rowR r \<le> TotalRows"
    by (auto simp: wellFormedSheet_def list_all_iff)
  from s show "distinct (map rowR ?rows)" by (simp add: strict_sorted_iff)
  show "int (length ?rows) \<le> rowR (last ?rows)" if ne: "?rows \<noteq> []"
  proof -
    have "int (length ?rows - 1) + 1 \<le> map rowR ?rows ! (length ?rows - 1)"
      using sorted_positive_ge_index[OF s, of "length ?rows - 1"] b ne by auto
    then show ?thesis using ne by (simp add: last_conv_nth)
  qed
  show "lastRowNumber ?rows \<le> TotalRows"
    using b by (auto simp: lastRowNumber_def TotalRows_def)
  show "1 \<le> rowR r \<and> rowR r \<le> lastRowNumber ?rows" if r: "r \<in> set ?rows"
  proof -
    have "rowR r \<le> last (map rowR ?rows)" using sorted_last_max[OF s] r by auto
    then show ?thesis using b r by (auto simp: lastRowNumber_def last_map)
  qed
qed

lemma checkSheet_rows:
  assumes "wellFormedSheet ws"
  shows "SheetData (checkSheet ws)
       = map (\<lambda>i. rowAt (SheetData ws) (int i + 1)) [0..<nat (lastRowNumber (SheetData ws))]"
proof -
  let ?rows = "SheetData ws"
  have n: "(let row = int (length ?rows) in
            if row \<ge> 1 then (let lastRow = rowR (last ?rows) in if lastRow \<ge> row then lastRow else row)
            else row) = lastRowNumber ?rows"
  proof (cases "?rows = []")
    case True
    then show ?thesis by (simp add: lastRowNumber_def)
  next
    case False
    then have "Suc 0 \<le> length ?rows" by (cases ?rows) auto
    then show ?thesis
      using wellFormed_rows(2)[OF assms False] False by (simp add: lastRowNumber_def Let_def)
  qed
  show ?thesis
    using n existsRows_rowAt[OF wellFormed_rows(1)[OF assms]]
    by (simp add: checkSheet_def Let_def)
qed

lemma checkSheet_numbered:
  assumes "wellFormedSheet ws"
  shows "map rowR (SheetData (checkSheet ws)) = [1..lastRowNumber (SheetData ws)]"
proof -
  have "0 \<le> lastRowNumber (SheetData ws)"
    using wellFormed_rows(2)[OF assms] by (auto simp: lastRowNumber_def)
  then show ?thesis
    using upto_from_one[of "nat (lastRowNumber (SheetData ws))"]
    by (simp add: checkSheet_rows[OF assms] rowAt_rowR comp_def)
qed





















section \<open>Properties of shared formulas\<close>


































end
